theory Spec2Isabelle
  imports Complex_Main "HOL-Library.Finite_Map"
begin

section \<open>Values exchanged with the API\<close>

text \<open>
  A response body is a JSON value. A JavaScript object has each key once, so an object is
  a finite map from keys to values. JSON numbers are finite, hence rationals. Strings are
  sequences of UTF-8 bytes.
\<close>

datatype json =
    JNull
  | JBool bool
  | JNumber rat
  | JString string
  | JArray "json list"
  | JObject "(string, json) fmap"

text \<open>
  The \<^verbatim>\<open>limit\<close> option is a JavaScript \<^verbatim>\<open>number\<close>, a double. The code observes two
  things of it: whether it is truthy, and what \<^verbatim>\<open>toString\<close> prints. A double is
  \<^item> \<open>Integer i\<close>, for a safe integer \<open>i\<close> (of magnitude at most \<open>2^53 - 1\<close>), where every
    integer is a double and \<^verbatim>\<open>toString\<close> prints its decimal digits; \<open>Integer 0\<close> is both
    \<open>0\<close> and \<open>-0\<close>;
  \<^item> \<open>Double r\<close>, for any other finite double (a fraction such as \<open>0.5\<close>, or a value of
    magnitude \<open>2^53\<close> or more), given by the string \<open>r\<close> that \<^verbatim>\<open>toString\<close> prints for it,
    which determines it: \<open>2^60\<close> is \<open>Double ''1152921504606847000''\<close> and \<open>10^21\<close> is
    \<open>Double ''1e+21''\<close>. None of these is zero;
  \<^item> \<open>NaN\<close>, \<open>PosInfinity\<close> or \<open>NegInfinity\<close>.
  The function that prints the shortest digits of a double is part of the language, not of
  the sources, and is not rebuilt here. \<open>js_number\<close> rules out the values of the type
  that stand for no double: an \<open>Integer\<close> outside the safe range, and a \<open>Double\<close> given by
  a string that \<^verbatim>\<open>toString\<close> prints for a value of another form (a safe integer, \<open>NaN\<close>,
  an infinity).
\<close>

datatype number = Integer int | Double string | NaN | PosInfinity | NegInfinity

definition digit_string :: "string \<Rightarrow> bool" where
  "digit_string r = (r \<noteq> [] \<and> list_all (\<lambda>c. c \<in> set ''0123456789'') r)"

definition digits_value :: "string \<Rightarrow> int" where
  "digits_value r = foldl (\<lambda>a c. 10 * a + (of_char c - 48)) 0 r"

definition integer_rendering :: "string \<Rightarrow> int option" where
  "integer_rendering r =
     (if digit_string r then Some (digits_value r)
      else (case r of
              c # t \<Rightarrow> (if c = CHR ''-'' \<and> digit_string t then Some (- digits_value t) else None)
            | [] \<Rightarrow> None))"

definition js_number :: "number \<Rightarrow> bool" where
  "js_number n =
     (case n of
        Integer i \<Rightarrow> \<bar>i\<bar> \<le> 9007199254740991
      | Double r \<Rightarrow>
          r \<noteq> ''NaN'' \<and> r \<noteq> ''Infinity'' \<and> r \<noteq> ''-Infinity''
          \<and> (case integer_rendering r of Some i \<Rightarrow> 9007199254740991 < \<bar>i\<bar> | None \<Rightarrow> True)
      | _ \<Rightarrow> True)"

text \<open>JavaScript truthiness, as used by \<^verbatim>\<open>if (x)\<close> and \<^verbatim>\<open>x || y\<close>.\<close>

definition truthy_string :: "string \<Rightarrow> bool" where
  "truthy_string s = (s \<noteq> [])"

definition truthy_number :: "number \<Rightarrow> bool" where
  "truthy_number n = (case n of Integer i \<Rightarrow> i \<noteq> 0 | NaN \<Rightarrow> False | _ \<Rightarrow> True)"

definition truthy_json :: "json \<Rightarrow> bool" where
  "truthy_json j =
     (case j of
        JNull \<Rightarrow> False
      | JBool b \<Rightarrow> b
      | JNumber q \<Rightarrow> q \<noteq> 0
      | JString s \<Rightarrow> truthy_string s
      | _ \<Rightarrow> True)"

section \<open>Schemas\<close>

text \<open>
  The validation library is not part of the sources. A schema is modelled by what
  validating a value does: it yields the validated value, or reports a list of issues, or
  throws. A built-in validator never throws; a schema with a transform or a refinement
  written by the caller throws when that callback throws, and a schema with an asynchronous
  refinement throws in the synchronous \<^verbatim>\<open>parse\<close> and \<^verbatim>\<open>safeParse\<close>. The value validated
  may be \<^verbatim>\<open>undefined\<close> (\<open>None\<close>): that is what an object schema hands to the validator
  of a key the input lacks.
\<close>

datatype path_elem = Key string | Index nat

datatype zod_issue = Issue (path: "path_elem list") (expected: string)

datatype error =
    ParameterValidationError
  | RequestError int string
  | ZodError "zod_issue list"
  | TypeError
  | Exception string

datatype 'a validation = Valid 'a | Invalid "zod_issue list" | Thrown error

type_synonym zod_schema = "json option \<Rightarrow> json validation"

datatype safe_result = Success json | Failure error

text \<open>
  \<^verbatim>\<open>schema.parse(x)\<close> returns the value, throws the issues as one \<^verbatim>\<open>ZodError\<close>, or lets
  the exception of the validation through. \<^verbatim>\<open>schema.safeParse(x)\<close> returns the value or
  the issues in a tagged result, and lets the exception through as well.
\<close>

definition parse :: "zod_schema \<Rightarrow> json \<Rightarrow> error + json" where
  "parse S x =
     (case S (Some x) of
        Valid v \<Rightarrow> Inr v
      | Invalid issues \<Rightarrow> Inl (ZodError issues)
      | Thrown e \<Rightarrow> Inl e)"

definition safeParse :: "zod_schema \<Rightarrow> json \<Rightarrow> error + safe_result" where
  "safeParse S x =
     (case S (Some x) of
        Valid v \<Rightarrow> Inr (Success v)
      | Invalid issues \<Rightarrow> Inr (Failure (ZodError issues))
      | Thrown e \<Rightarrow> Inl e)"

subsection \<open>The combinators the default schemas are built from\<close>

definition z_string :: zod_schema where
  "z_string x = (case x of Some (JString s) \<Rightarrow> Valid (JString s) | _ \<Rightarrow> Invalid [Issue [] ''string''])"

definition z_boolean :: zod_schema where
  "z_boolean x = (case x of Some (JBool b) \<Rightarrow> Valid (JBool b) | _ \<Rightarrow> Invalid [Issue [] ''boolean''])"

definition z_number :: zod_schema where
  "z_number x = (case x of Some (JNumber q) \<Rightarrow> Valid (JNumber q) | _ \<Rightarrow> Invalid [Issue [] ''number''])"

definition nullable :: "zod_schema \<Rightarrow> zod_schema" where
  "nullable S x = (case x of Some JNull \<Rightarrow> Valid JNull | _ \<Rightarrow> S x)"

text \<open>An issue found inside a field or an element is reported under that field's path.\<close>

definition at_path :: "path_elem \<Rightarrow> 'a validation \<Rightarrow> 'a validation" where
  "at_path p r =
     (case r of
        Invalid issues \<Rightarrow> Invalid (map (\<lambda>i. Issue (p # path i) (expected i)) issues)
      | Valid v \<Rightarrow> Valid v
      | Thrown e \<Rightarrow> Thrown e)"

text \<open>
  The parts are validated in order. The first part that throws ends the validation with its
  exception; otherwise the issues of all failing parts are reported together.
\<close>

fun collect :: "'a validation list \<Rightarrow> 'a list validation" where
  "collect [] = Valid []"
| "collect (r # rs) =
     (case r of
        Thrown e \<Rightarrow> Thrown e
      | Valid v \<Rightarrow>
          (case collect rs of
             Valid vs \<Rightarrow> Valid (v # vs)
           | Invalid es \<Rightarrow> Invalid es
           | Thrown e \<Rightarrow> Thrown e)
      | Invalid es \<Rightarrow>
          (case collect rs of
             Valid vs \<Rightarrow> Invalid es
           | Invalid es' \<Rightarrow> Invalid (es @ es')
           | Thrown e \<Rightarrow> Thrown e))"

definition z_array :: "zod_schema \<Rightarrow> zod_schema" where
  "z_array S x =
     (case x of
        Some (JArray xs) \<Rightarrow>
          (case collect (map (\<lambda>(i, y). at_path (Index i) (S (Some y))) (enumerate 0 xs)) of
             Valid vs \<Rightarrow> Valid (JArray vs)
           | Invalid es \<Rightarrow> Invalid es
           | Thrown e \<Rightarrow> Thrown e)
      | _ \<Rightarrow> Invalid [Issue [] ''array''])"

text \<open>
  An object schema hands to the validator of each key of its shape the value the input has
  under that key, or \<^verbatim>\<open>undefined\<close>. What happens to the other keys of the input is the
  schema's \<^verbatim>\<open>unknownKeys\<close> mode: dropped by default, kept after \<^verbatim>\<open>.passthrough()\<close>. The
  result is a new object, and the library never sets a key named \<^verbatim>\<open>__proto__\<close> in it:
  such a key of the input (\<^verbatim>\<open>JSON.parse\<close> creates one from a body that has it) is not in
  the result in either mode.
\<close>

datatype unknown_keys = Strip | Passthrough

definition field :: "(string, json) fmap \<Rightarrow> string \<times> zod_schema \<Rightarrow> (string \<times> json) validation" where
  "field m kS =
     (case kS of (k, S) \<Rightarrow>
        (case at_path (Key k) (S (fmlookup m k)) of
           Valid v \<Rightarrow> Valid (k, v)
         | Invalid es \<Rightarrow> Invalid es
         | Thrown e \<Rightarrow> Thrown e))"

definition z_object :: "unknown_keys \<Rightarrow> (string \<times> zod_schema) list \<Rightarrow> zod_schema" where
  "z_object mode shape x =
     (case x of
        Some (JObject m) \<Rightarrow>
          (case collect (map (field m) shape) of
             Valid kvs \<Rightarrow>
               Valid (JObject (fmdrop ''__proto__''
                 (foldl (\<lambda>acc (k, v). fmupd k v acc)
                        (case mode of Passthrough \<Rightarrow> m | Strip \<Rightarrow> fmempty) kvs)))
           | Invalid es \<Rightarrow> Invalid es
           | Thrown e \<Rightarrow> Thrown e)
      | _ \<Rightarrow> Invalid [Issue [] ''object''])"

subsection \<open>The default schemas of \<^verbatim>\<open>list_workspaces.ts\<close>\<close>

definition WorkspaceResponseSchema :: zod_schema where
  "WorkspaceResponseSchema =
     z_object Passthrough
       [(''id'', z_string),
        (''name'', z_string),
        (''slug'', nullable z_string),
        (''tier'', z_string),
        (''role'', z_string),
        (''created_at'', z_string)]"

definition PaginationMetadataSchema :: zod_schema where
  "PaginationMetadataSchema =
     z_object Passthrough
       [(''has_more'', z_boolean),
        (''next_cursor'', nullable z_string),
        (''total'', nullable z_number)]"

definition ListWorkspacesSchema :: zod_schema where
  "ListWorkspacesSchema =
     z_object Passthrough
       [(''data'', z_array WorkspaceResponseSchema),
        (''pagination'', PaginationMetadataSchema)]"

section \<open>Action parameters\<close>

text \<open>
  The \<^verbatim>\<open>schema\<close> option as the function receives it at run time: absent, \<^verbatim>\<open>false\<close>, a
  schema, or any other value (which the TypeScript types exclude and parameter validation
  exists to reject).
\<close>

datatype schema_param =
    SchemaUndefined
  | SchemaFalse
  | SchemaZod zod_schema
  | SchemaOther json

record ActionParameters =
  schema :: schema_param

record ListWorkspacesParameters = ActionParameters +
  cursor :: "string option"
  limit :: "number option"

type_synonym GetWorkspaceParameters = ActionParameters

text \<open>\<^verbatim>\<open>parameters?.schema\<close>, \<^verbatim>\<open>parameters?.cursor\<close>, \<^verbatim>\<open>parameters?.limit\<close>.\<close>

definition opt_schema :: "'a ActionParameters_scheme option \<Rightarrow> schema_param" where
  "opt_schema parameters = (case parameters of None \<Rightarrow> SchemaUndefined | Some p \<Rightarrow> schema p)"

definition opt_cursor :: "ListWorkspacesParameters option \<Rightarrow> string option" where
  "opt_cursor parameters = (case parameters of None \<Rightarrow> None | Some p \<Rightarrow> cursor p)"

definition opt_limit :: "ListWorkspacesParameters option \<Rightarrow> number option" where
  "opt_limit parameters = (case parameters of None \<Rightarrow> None | Some p \<Rightarrow> limit p)"

text \<open>
  Modelled from the spec: \<^verbatim>\<open>validateActionParameters\<close>, imported from \<^verbatim>\<open>../../utils\<close>,
  is not among the sources. The spec has each action validate the caller-supplied options,
  and lets the caller pass \<^verbatim>\<open>false\<close>, a custom schema, or nothing: any other value of the
  \<^verbatim>\<open>schema\<close> option is a parameter error, which this variant throws (\<open>Some\<close>).
\<close>

definition validateActionParameters :: "'a ActionParameters_scheme option \<Rightarrow> error option" where
  "validateActionParameters parameters =
     (case opt_schema parameters of
        SchemaOther v \<Rightarrow> Some ParameterValidationError
      | _ \<Rightarrow> None)"

text \<open>
  Modelled from the spec: \<^verbatim>\<open>safeValidateActionParameters\<close>, imported from
  \<^verbatim>\<open>../../utils\<close>, is not among the sources. It converts the parameter error that
  \<^verbatim>\<open>validateActionParameters\<close> throws into a tagged failure, and returns \<^verbatim>\<open>undefined\<close>
  (\<open>None\<close>) when the options are valid.
\<close>

definition safeValidateActionParameters :: "'a ActionParameters_scheme option \<Rightarrow> safe_result option" where
  "safeValidateActionParameters parameters =
     (case opt_schema parameters of
        SchemaOther v \<Rightarrow> Some (Failure ParameterValidationError)
      | _ \<Rightarrow> None)"

text \<open>
  \<^verbatim>\<open>parameters?.schema || Default\<close> picks the default for a falsy left operand, and
  calling \<^verbatim>\<open>.parse\<close> or \<^verbatim>\<open>.safeParse\<close> on a value that is not a schema throws a
  \<^verbatim>\<open>TypeError\<close>.
\<close>

definition schema_or :: "schema_param \<Rightarrow> zod_schema \<Rightarrow> schema_param" where
  "schema_or s dflt =
     (case s of
        SchemaUndefined \<Rightarrow> SchemaZod dflt
      | SchemaFalse \<Rightarrow> SchemaZod dflt
      | SchemaZod S \<Rightarrow> SchemaZod S
      | SchemaOther v \<Rightarrow> (if truthy_json v then SchemaOther v else SchemaZod dflt))"

definition call_parse :: "schema_param \<Rightarrow> json \<Rightarrow> error + json" where
  "call_parse s x = (case s of SchemaZod S \<Rightarrow> parse S x | _ \<Rightarrow> Inl TypeError)"

definition call_safeParse :: "schema_param \<Rightarrow> json \<Rightarrow> error + safe_result" where
  "call_safeParse s x = (case s of SchemaZod S \<Rightarrow> safeParse S x | _ \<Rightarrow> Inl TypeError)"

section \<open>Building the request URL\<close>

text \<open>
  \<^verbatim>\<open>URLSearchParams\<close>: an ordered list of name-value pairs; \<^verbatim>\<open>append\<close> (here
  \<open>append_pair\<close>) adds a pair at the end, \<^verbatim>\<open>toString\<close> serialises the list as
  \<^verbatim>\<open>application/x-www-form-urlencoded\<close>: letters, digits and \<^verbatim>\<open>* - . _\<close> stay, a space
  becomes \<^verbatim>\<open>+\<close>, every other byte becomes \<^verbatim>\<open>%XX\<close>.
\<close>

type_synonym URLSearchParams = "(string \<times> string) list"

definition append_pair :: "URLSearchParams \<Rightarrow> string \<Rightarrow> string \<Rightarrow> URLSearchParams" where
  "append_pair qp name v = qp @ [(name, v)]"

definition hex_digit :: "nat \<Rightarrow> char" where
  "hex_digit n = ''0123456789ABCDEF'' ! (n mod 16)"

definition urlencode_byte :: "char \<Rightarrow> string" where
  "urlencode_byte c =
     (let n = (of_char c :: nat) in
      if c = CHR '' '' then ''+''
      else if (48 \<le> n \<and> n \<le> 57) \<or> (65 \<le> n \<and> n \<le> 90) \<or> (97 \<le> n \<and> n \<le> 122)
              \<or> c \<in> set ''*-._''
      then [c]
      else [CHR ''%'', hex_digit (n div 16), hex_digit (n mod 16)])"

definition urlencode :: "string \<Rightarrow> string" where
  "urlencode s = concat (map urlencode_byte s)"

fun join_amp :: "string list \<Rightarrow> string" where
  "join_amp [] = []"
| "join_amp [x] = x"
| "join_amp (x # y # ys) = x @ ''&'' @ join_amp (y # ys)"

definition toString :: "URLSearchParams \<Rightarrow> string" where
  "toString qp = join_amp (map (\<lambda>(name, v). urlencode name @ ''='' @ urlencode v) qp)"

text \<open>
  \<^verbatim>\<open>Number.prototype.toString\<close>: the decimal digits of a safe integer, with a minus sign
  when it is negative; the string a \<open>Double\<close> is given by; the names of the other values.
\<close>

definition digit_char :: "nat \<Rightarrow> char" where
  "digit_char n = ''0123456789'' ! (n mod 10)"

fun digits :: "nat \<Rightarrow> string" where
  "digits n = (if n < 10 then [digit_char n] else digits (n div 10) @ [digit_char (n mod 10)])"

definition number_toString :: "number \<Rightarrow> string" where
  "number_toString n =
     (case n of
        Integer i \<Rightarrow> (if i < 0 then ''-'' @ digits (nat (- i)) else digits (nat i))
      | Double r \<Rightarrow> r
      | NaN \<Rightarrow> ''NaN''
      | PosInfinity \<Rightarrow> ''Infinity''
      | NegInfinity \<Rightarrow> ''-Infinity'')"

section \<open>The client\<close>

text \<open>
  The client is outside the sources; an action only calls its \<^verbatim>\<open>get\<close> or its
  \<^verbatim>\<open>safeGet\<close>. Both are taken as parameters: \<^verbatim>\<open>get\<close> returns the response or throws,
  \<^verbatim>\<open>safeGet\<close> returns a tagged result, and either may read and change the state \<open>'w\<close> of
  the world behind the client (connection, server). A run records every call an action
  makes on the client, in order.
\<close>

record 'w Client =
  get :: "string \<Rightarrow> 'w \<Rightarrow> (error + json) \<times> 'w"
  safeGet :: "string \<Rightarrow> 'w \<Rightarrow> safe_result \<times> 'w"

datatype call = Get string | SafeGet string

record 'w run =
  trace :: "call list"
  world :: 'w

definition client_get :: "'w Client \<Rightarrow> string \<Rightarrow> 'w run \<Rightarrow> (error + json) \<times> 'w run" where
  "client_get client url s =
     (case get client url (world s) of
        (r, w) \<Rightarrow> (r, \<lparr>trace = trace s @ [Get url], world = w\<rparr>))"

definition client_safeGet :: "'w Client \<Rightarrow> string \<Rightarrow> 'w run \<Rightarrow> safe_result \<times> 'w run" where
  "client_safeGet client url s =
     (case safeGet client url (world s) of
        (r, w) \<Rightarrow> (r, \<lparr>trace = trace s @ [SafeGet url], world = w\<rparr>))"

section \<open>The actions\<close>

text \<open>
  An \<^verbatim>\<open>async\<close> function ends by returning a value (\<open>Inr\<close>) or by throwing (\<open>Inl\<close>, a
  rejected promise). Each action takes the run so far and returns the run it leaves.
\<close>

definition listWorkspaces ::
  "'w Client \<Rightarrow> ListWorkspacesParameters option \<Rightarrow> 'w run \<Rightarrow> (error + json) \<times> 'w run" where
  "listWorkspaces client parameters s =
     (case validateActionParameters parameters of
        Some e \<Rightarrow> (Inl e, s)
      | None \<Rightarrow>
          (let queryParams = [];
               queryParams =
                 (case opt_cursor parameters of
                    Some c \<Rightarrow> if truthy_string c then append_pair queryParams ''cursor'' c else queryParams
                  | None \<Rightarrow> queryParams);
               queryParams =
                 (case opt_limit parameters of
                    Some l \<Rightarrow>
                      if truthy_number l then append_pair queryParams ''limit'' (number_toString l)
                      else queryParams
                  | None \<Rightarrow> queryParams);
               url = (if truthy_string (toString queryParams)
                      then ''/workspaces?'' @ toString queryParams else ''/workspaces'')
           in case client_get client url s of
                (Inl e, s') \<Rightarrow> (Inl e, s')
              | (Inr response, s') \<Rightarrow>
                  (case opt_schema parameters of
                     SchemaFalse \<Rightarrow> (Inr response, s')
                   | _ \<Rightarrow>
                       (call_parse (schema_or (opt_schema parameters) ListWorkspacesSchema) response,
                        s'))))"

definition safeListWorkspaces ::
  "'w Client \<Rightarrow> ListWorkspacesParameters option \<Rightarrow> 'w run \<Rightarrow> (error + safe_result) \<times> 'w run" where
  "safeListWorkspaces client parameters s =
     (case safeValidateActionParameters parameters of
        Some parameterValidationError \<Rightarrow> (Inr parameterValidationError, s)
      | None \<Rightarrow>
          (let queryParams = [];
               queryParams =
                 (case opt_cursor parameters of
                    Some c \<Rightarrow> if truthy_string c then append_pair queryParams ''cursor'' c else queryParams
                  | None \<Rightarrow> queryParams);
               queryParams =
                 (case opt_limit parameters of
                    Some l \<Rightarrow>
                      if truthy_number l then append_pair queryParams ''limit'' (number_toString l)
                      else queryParams
                  | None \<Rightarrow> queryParams);
               url = (if truthy_string (toString queryParams)
                      then ''/workspaces?'' @ toString queryParams else ''/workspaces'')
           in case client_safeGet client url s of
                (Failure e, s') \<Rightarrow> (Inr (Failure e), s')
              | (Success d, s') \<Rightarrow>
                  (case opt_schema parameters of
                     SchemaFalse \<Rightarrow> (Inr (Success d), s')
                   | _ \<Rightarrow>
                       (call_safeParse (schema_or (opt_schema parameters) ListWorkspacesSchema) d,
                        s'))))"

definition getWorkspace ::
  "'w Client \<Rightarrow> string \<Rightarrow> GetWorkspaceParameters option \<Rightarrow> 'w run \<Rightarrow> (error + json) \<times> 'w run" where
  "getWorkspace client teamSlug parameters s =
     (case validateActionParameters parameters of
        Some e \<Rightarrow> (Inl e, s)
      | None \<Rightarrow>
          (case client_get client (''/workspaces/'' @ teamSlug) s of
             (Inl e, s') \<Rightarrow> (Inl e, s')
           | (Inr response, s') \<Rightarrow>
               (case opt_schema parameters of
                  SchemaFalse \<Rightarrow> (Inr response, s')
                | _ \<Rightarrow>
                    (call_parse (schema_or (opt_schema parameters) WorkspaceResponseSchema) response,
                     s'))))"

definition safeGetWorkspace ::
  "'w Client \<Rightarrow> string \<Rightarrow> GetWorkspaceParameters option \<Rightarrow> 'w run
     \<Rightarrow> (error + safe_result) \<times> 'w run" where
  "safeGetWorkspace client teamSlug parameters s =
     (case safeValidateActionParameters parameters of
        Some parameterValidationError \<Rightarrow> (Inr parameterValidationError, s)
      | None \<Rightarrow>
          (case client_safeGet client (''/workspaces/'' @ teamSlug) s of
             (Failure e, s') \<Rightarrow> (Inr (Failure e), s')
           | (Success d, s') \<Rightarrow>
               (case opt_schema parameters of
                  SchemaFalse \<Rightarrow> (Inr (Success d), s')
                | _ \<Rightarrow>
                    (call_safeParse (schema_or (opt_schema parameters) WorkspaceResponseSchema) d,
                     s'))))"

section \<open>Notions used to state the properties\<close>

text \<open>
  The query pairs an invocation of \<^verbatim>\<open>listWorkspaces\<close> sends: \<^verbatim>\<open>cursor\<close> when the caller
  supplies a string other than the empty one, \<^verbatim>\<open>limit\<close> when the caller supplies a number
  other than \<open>0\<close> and \<open>NaN\<close>, in this order; and the URL they give.
\<close>

definition supplied_query :: "ListWorkspacesParameters option \<Rightarrow> URLSearchParams" where
  "supplied_query parameters =
     (case opt_cursor parameters of
        Some c \<Rightarrow> (if c = [] then [] else [(''cursor'', c)])
      | None \<Rightarrow> [])
     @ (case opt_limit parameters of
          Some l \<Rightarrow> (if l = Integer 0 \<or> l = NaN then [] else [(''limit'', number_toString l)])
        | None \<Rightarrow> [])"

text \<open>The limit, when one is supplied, stands for a double.\<close>

definition js_limit :: "ListWorkspacesParameters option \<Rightarrow> bool" where
  "js_limit parameters = (case opt_limit parameters of Some l \<Rightarrow> js_number l | None \<Rightarrow> True)"

definition listWorkspaces_url :: "ListWorkspacesParameters option \<Rightarrow> string" where
  "listWorkspaces_url parameters =
     (if supplied_query parameters = [] then ''/workspaces''
      else ''/workspaces?'' @ toString (supplied_query parameters))"

text \<open>The tagged result that stands for an outcome of a throwing function.\<close>

definition to_safe :: "error + json \<Rightarrow> safe_result" where
  "to_safe r = (case r of Inr v \<Rightarrow> Success v | Inl e \<Rightarrow> Failure e)"

text \<open>A schema accepts a value when validating it yields a value.\<close>

definition accepts :: "zod_schema \<Rightarrow> json \<Rightarrow> bool" where
  "accepts S x = (case S (Some x) of Valid v \<Rightarrow> True | _ \<Rightarrow> False)"

text \<open>
  The validation that an action runs on the answer of the client throws \<open>e\<close>: the client
  answered with a response, the schema in force is the caller's or the default one, and
  validating the response with it throws \<open>e\<close>.
\<close>

definition validation_throws :: "schema_param \<Rightarrow> zod_schema \<Rightarrow> safe_result \<Rightarrow> error \<Rightarrow> bool" where
  "validation_throws sc dflt answer e =
     (case answer of
        Failure x \<Rightarrow> False
      | Success d \<Rightarrow>
          (case sc of
             SchemaZod S \<Rightarrow> S (Some d) = Thrown e
           | SchemaUndefined \<Rightarrow> dflt (Some d) = Thrown e
           | _ \<Rightarrow> False))"

text \<open>
  The value under a key of an object. An object without its key \<^verbatim>\<open>__proto__\<close>. A listing
  without the key \<^verbatim>\<open>__proto__\<close> of the listing itself, of its \<^verbatim>\<open>pagination\<close> object and
  of each object in its \<^verbatim>\<open>data\<close> array.
\<close>

definition json_get :: "json \<Rightarrow> string \<Rightarrow> json option" where
  "json_get j k = (case j of JObject m \<Rightarrow> fmlookup m k | _ \<Rightarrow> None)"

definition without_proto :: "json \<Rightarrow> json" where
  "without_proto j = (case j of JObject m \<Rightarrow> JObject (fmdrop ''__proto__'' m) | _ \<Rightarrow> j)"

definition listing_part :: "string \<Rightarrow> json \<Rightarrow> json" where
  "listing_part k v =
     (if k = ''data'' then (case v of JArray ws \<Rightarrow> JArray (map without_proto ws) | _ \<Rightarrow> v)
      else if k = ''pagination'' then without_proto v
      else v)"

definition listing_without_proto :: "json \<Rightarrow> json" where
  "listing_without_proto j =
     (case j of
        JObject m \<Rightarrow> JObject (fmdrop ''__proto__'' (fmmap_keys listing_part m))
      | _ \<Rightarrow> j)"


subsection \<open>Concrete inputs\<close>

definition demo_workspace :: json where
  "demo_workspace =
     JObject (fmap_of_list
       [(''id'', JString ''ws_1''),
        (''name'', JString ''Acme''),
        (''slug'', JString ''acme''),
        (''tier'', JString ''free''),
        (''role'', JString ''owner''),
        (''created_at'', JString ''2025-01-01T00:00:00Z''),
        (''avatar'', JNull)])"

definition demo_listing :: json where
  "demo_listing =
     JObject (fmap_of_list
       [(''data'', JArray [demo_workspace]),
        (''pagination'', JObject (fmap_of_list
           [(''has_more'', JBool False),
            (''next_cursor'', JNull),
            (''total'', JNumber 1),
            (''page_size'', JNumber 20)])),
        (''request_id'', JString ''req_7'')])"

text \<open>A workspace as \<^verbatim>\<open>JSON.parse\<close> gives it from a body that has a key \<^verbatim>\<open>__proto__\<close>.\<close>

definition proto_workspace :: json where
  "proto_workspace =
     JObject (fmap_of_list
       [(''id'', JString ''ws_2''),
        (''name'', JString ''Proto''),
        (''slug'', JNull),
        (''tier'', JString ''free''),
        (''role'', JString ''member''),
        (''created_at'', JString ''2025-02-02T00:00:00Z''),
        (''__proto__'', JObject (fmap_of_list [(''admin'', JBool True)]))])"

text \<open>
  A client whose world counts the requests served: it knows two workspaces and lists one
  under \<^verbatim>\<open>/workspaces\<close>; two URLs get a response of the wrong shape; anything else gets a
  404. Its \<^verbatim>\<open>safeGet\<close> tags what its \<^verbatim>\<open>get\<close> returns or throws.
\<close>

definition demo_get :: "string \<Rightarrow> nat \<Rightarrow> (error + json) \<times> nat" where
  "demo_get url w =
     (if url = ''/workspaces/acme'' then (Inr demo_workspace, Suc w)
      else if url = ''/workspaces'' then (Inr demo_listing, Suc w)
      else if url = ''/workspaces/proto'' then (Inr proto_workspace, Suc w)
      else if url = ''/workspaces/legacy'' then (Inr (JString ''gone''), Suc w)
      else if url = ''/workspaces?cursor=old'' then (Inr (JArray []), Suc w)
      else (Inl (RequestError 404 ''Not Found''), Suc w))"

definition demo_client :: "nat Client" where
  "demo_client =
     \<lparr>get = demo_get,
      safeGet = (\<lambda>url w. case demo_get url w of (r, w') \<Rightarrow> (to_safe r, w'))\<rparr>"

definition demo_run :: "nat run" where
  "demo_run = \<lparr>trace = [], world = 0\<rparr>"

text \<open>A later run of the same client: two calls were made and five requests served.\<close>

definition later_run :: "nat run" where
  "later_run = \<lparr>trace = [Get ''/workspaces'', SafeGet ''/workspaces/acme''], world = 5\<rparr>"

text \<open>A \<^verbatim>\<open>schema\<close> option that is neither \<^verbatim>\<open>false\<close> nor a schema: the string \<^verbatim>\<open>"yes"\<close>.\<close>

definition bad_list_params :: "ListWorkspacesParameters option" where
  "bad_list_params = Some \<lparr>schema = SchemaOther (JString ''yes''), cursor = None, limit = None\<rparr>"

definition bad_get_params :: "GetWorkspaceParameters option" where
  "bad_get_params = Some \<lparr>schema = SchemaOther (JString ''yes'')\<rparr>"

text \<open>A custom schema: any string.\<close>

definition demo_schema :: zod_schema where
  "demo_schema = z_string"

text \<open>A custom schema whose transform throws on every value.\<close>

definition throwing_schema :: zod_schema where
  "throwing_schema = (\<lambda>x. Thrown (Exception ''transform failed''))"

text \<open>
  What a throwing action ends with, and what a safe action ends with, as a function of the
  \<^verbatim>\<open>schema\<close> option, the action's default schema and the client's answer.
\<close>

definition throwing_outcome :: "schema_param \<Rightarrow> zod_schema \<Rightarrow> error + json \<Rightarrow> error + json" where
  "throwing_outcome sc dflt resp =
     (case sc of
        SchemaOther v \<Rightarrow> Inl ParameterValidationError
      | SchemaFalse \<Rightarrow> resp
      | SchemaZod S \<Rightarrow> (case resp of Inl e \<Rightarrow> Inl e | Inr r \<Rightarrow> parse S r)
      | SchemaUndefined \<Rightarrow> (case resp of Inl e \<Rightarrow> Inl e | Inr r \<Rightarrow> parse dflt r))"

definition safe_outcome ::
  "schema_param \<Rightarrow> zod_schema \<Rightarrow> safe_result \<Rightarrow> error + safe_result" where
  "safe_outcome sc dflt resp =
     (case sc of
        SchemaOther v \<Rightarrow> Inr (Failure ParameterValidationError)
      | SchemaFalse \<Rightarrow> Inr resp
      | SchemaZod S \<Rightarrow> (case resp of Failure e \<Rightarrow> Inr (Failure e) | Success r \<Rightarrow> safeParse S r)
      | SchemaUndefined \<Rightarrow>
          (case resp of Failure e \<Rightarrow> Inr (Failure e) | Success r \<Rightarrow> safeParse dflt r))"

section \<open>Auxiliary facts\<close>

subsection \<open>The actions\<close>

lemma join_amp_empty_iff: "join_amp xs = [] \<longleftrightarrow> xs = [] \<or> xs = [[]]"
  by (induction xs rule: join_amp.induct) auto

lemma toString_empty_iff: "toString qp = [] \<longleftrightarrow> qp = []"
  by (cases qp) (auto simp: toString_def join_amp_empty_iff)

lemma truthy_number_iff: "truthy_number l \<longleftrightarrow> \<not> (l = Integer 0 \<or> l = NaN)"
  by (cases l) (simp_all add: truthy_number_def)

lemma query_url:
  "(let queryParams = [];
        queryParams =
          (case opt_cursor parameters of
             Some c \<Rightarrow> if truthy_string c then append_pair queryParams ''cursor'' c else queryParams
           | None \<Rightarrow> queryParams);
        queryParams =
          (case opt_limit parameters of
             Some l \<Rightarrow>
               if truthy_number l then append_pair queryParams ''limit'' (number_toString l)
               else queryParams
           | None \<Rightarrow> queryParams);
        url = (if truthy_string (toString queryParams)
               then ''/workspaces?'' @ toString queryParams else ''/workspaces'')
    in f url) = f (listWorkspaces_url parameters)"
  by (simp add: Let_def listWorkspaces_url_def supplied_query_def append_pair_def
      truthy_string_def truthy_number_iff toString_empty_iff split: option.splits)

lemma listWorkspaces_eq:
  "listWorkspaces client parameters s =
     (case validateActionParameters parameters of
        Some e \<Rightarrow> (Inl e, s)
      | None \<Rightarrow>
          (case client_get client (listWorkspaces_url parameters) s of
             (Inl e, s') \<Rightarrow> (Inl e, s')
           | (Inr response, s') \<Rightarrow>
               (case opt_schema parameters of
                  SchemaFalse \<Rightarrow> (Inr response, s')
                | _ \<Rightarrow>
                    (call_parse (schema_or (opt_schema parameters) ListWorkspacesSchema) response,
                     s'))))"
  unfolding listWorkspaces_def by (simp only: query_url)

lemma safeListWorkspaces_eq:
  "safeListWorkspaces client parameters s =
     (case safeValidateActionParameters parameters of
        Some parameterValidationError \<Rightarrow> (Inr parameterValidationError, s)
      | None \<Rightarrow>
          (case client_safeGet client (listWorkspaces_url parameters) s of
             (Failure e, s') \<Rightarrow> (Inr (Failure e), s')
           | (Success d, s') \<Rightarrow>
               (case opt_schema parameters of
                  SchemaFalse \<Rightarrow> (Inr (Success d), s')
                | _ \<Rightarrow>
                    (call_safeParse (schema_or (opt_schema parameters) ListWorkspacesSchema) d,
                     s'))))"
  unfolding safeListWorkspaces_def by (simp only: query_url)

lemma validate_cases:
  "validateActionParameters p =
     (case opt_schema p of SchemaOther v \<Rightarrow> Some ParameterValidationError | _ \<Rightarrow> None)"
  by (simp add: validateActionParameters_def)

lemma safeValidate_None_iff:
  "safeValidateActionParameters ps = None \<longleftrightarrow> validateActionParameters ps = None"
  by (simp add: validateActionParameters_def safeValidateActionParameters_def
      split: schema_param.splits)

lemma fst_client_get: "fst (client_get client url s) = fst (get client url (world s))"
  by (simp add: client_get_def split: prod.splits)

lemma fst_client_safeGet: "fst (client_safeGet client url s) = fst (safeGet client url (world s))"
  by (simp add: client_safeGet_def split: prod.splits)

lemma snd_client_get:
  "snd (client_get client url s)
     = \<lparr>trace = trace s @ [Get url], world = snd (get client url (world s))\<rparr>"
  by (simp add: client_get_def split: prod.splits)

lemma snd_client_safeGet:
  "snd (client_safeGet client url s)
     = \<lparr>trace = trace s @ [SafeGet url], world = snd (safeGet client url (world s))\<rparr>"
  by (simp add: client_safeGet_def split: prod.splits)

lemma fst_listWorkspaces:
  "fst (listWorkspaces client lp s) =
     throwing_outcome (opt_schema lp) ListWorkspacesSchema
       (fst (get client (listWorkspaces_url lp) (world s)))"
  by (cases "client_get client (listWorkspaces_url lp) s")
     (use fst_client_get [of client "listWorkspaces_url lp" s] in
      \<open>auto simp: listWorkspaces_eq validate_cases throwing_outcome_def schema_or_def
        call_parse_def split: schema_param.splits sum.splits\<close>)

lemma fst_getWorkspace:
  "fst (getWorkspace client teamSlug gp s) =
     throwing_outcome (opt_schema gp) WorkspaceResponseSchema
       (fst (get client (''/workspaces/'' @ teamSlug) (world s)))"
  by (cases "client_get client (''/workspaces/'' @ teamSlug) s")
     (use fst_client_get [of client "''/workspaces/'' @ teamSlug" s] in
      \<open>auto simp: getWorkspace_def validate_cases throwing_outcome_def schema_or_def
        call_parse_def split: schema_param.splits sum.splits\<close>)

lemma fst_safeListWorkspaces:
  "fst (safeListWorkspaces client lp s) =
     safe_outcome (opt_schema lp) ListWorkspacesSchema
       (fst (safeGet client (listWorkspaces_url lp) (world s)))"
  by (cases "client_safeGet client (listWorkspaces_url lp) s")
     (use fst_client_safeGet [of client "listWorkspaces_url lp" s] in
      \<open>auto simp: safeListWorkspaces_eq safeValidateActionParameters_def safe_outcome_def
        schema_or_def call_safeParse_def
        split: schema_param.splits safe_result.splits\<close>)

lemma fst_safeGetWorkspace:
  "fst (safeGetWorkspace client teamSlug gp s) =
     safe_outcome (opt_schema gp) WorkspaceResponseSchema
       (fst (safeGet client (''/workspaces/'' @ teamSlug) (world s)))"
  by (cases "client_safeGet client (''/workspaces/'' @ teamSlug) s")
     (use fst_client_safeGet [of client "''/workspaces/'' @ teamSlug" s] in
      \<open>auto simp: safeGetWorkspace_def safeValidateActionParameters_def safe_outcome_def
        schema_or_def call_safeParse_def
        split: schema_param.splits safe_result.splits\<close>)

lemma snd_listWorkspaces:
  "validateActionParameters lp = None \<Longrightarrow>
     snd (listWorkspaces client lp s)
       = \<lparr>trace = trace s @ [Get (listWorkspaces_url lp)],
          world = snd (get client (listWorkspaces_url lp) (world s))\<rparr>"
  using snd_client_get [of client "listWorkspaces_url lp" s]
  by (cases "client_get client (listWorkspaces_url lp) s")
     (auto simp: listWorkspaces_eq split: schema_param.splits sum.splits)

lemma snd_safeListWorkspaces:
  "safeValidateActionParameters lp = None \<Longrightarrow>
     snd (safeListWorkspaces client lp s)
       = \<lparr>trace = trace s @ [SafeGet (listWorkspaces_url lp)],
          world = snd (safeGet client (listWorkspaces_url lp) (world s))\<rparr>"
  using snd_client_safeGet [of client "listWorkspaces_url lp" s]
  by (cases "client_safeGet client (listWorkspaces_url lp) s")
     (auto simp: safeListWorkspaces_eq split: schema_param.splits safe_result.splits)

lemma snd_getWorkspace:
  "validateActionParameters gp = None \<Longrightarrow>
     snd (getWorkspace client teamSlug gp s)
       = \<lparr>trace = trace s @ [Get (''/workspaces/'' @ teamSlug)],
          world = snd (get client (''/workspaces/'' @ teamSlug) (world s))\<rparr>"
  using snd_client_get [of client "''/workspaces/'' @ teamSlug" s]
  by (cases "client_get client (''/workspaces/'' @ teamSlug) s")
     (auto simp: getWorkspace_def split: schema_param.splits sum.splits)

lemma snd_safeGetWorkspace:
  "safeValidateActionParameters gp = None \<Longrightarrow>
     snd (safeGetWorkspace client teamSlug gp s)
       = \<lparr>trace = trace s @ [SafeGet (''/workspaces/'' @ teamSlug)],
          world = snd (safeGet client (''/workspaces/'' @ teamSlug) (world s))\<rparr>"
  using snd_client_safeGet [of client "''/workspaces/'' @ teamSlug" s]
  by (cases "client_safeGet client (''/workspaces/'' @ teamSlug) s")
     (auto simp: safeGetWorkspace_def split: schema_param.splits safe_result.splits)

lemma trace_listWorkspaces:
  "validateActionParameters lp = None \<Longrightarrow>
     trace (snd (listWorkspaces client lp s)) = trace s @ [Get (listWorkspaces_url lp)]"
  by (simp add: snd_listWorkspaces)

lemma trace_safeListWorkspaces:
  "safeValidateActionParameters lp = None \<Longrightarrow>
     trace (snd (safeListWorkspaces client lp s)) = trace s @ [SafeGet (listWorkspaces_url lp)]"
  by (simp add: snd_safeListWorkspaces)



lemma parse_safeParse:
  "(safeParse S r = Inr (Success v) \<longleftrightarrow> parse S r = Inr v)"
  "(parse S r = Inl e \<longleftrightarrow> safeParse S r = Inr (Failure e) \<or> safeParse S r = Inl e)"
  "(safeParse S r = Inl e \<longleftrightarrow> S (Some r) = Thrown e)"
  by (cases "S (Some r)"; auto simp: parse_def safeParse_def)+

lemma safe_outcome_Success:
  "safe_outcome sc dflt (to_safe resp) = Inr (Success v) \<longleftrightarrow> throwing_outcome sc dflt resp = Inr v"
  by (cases sc; cases resp) (simp_all add: safe_outcome_def throwing_outcome_def to_safe_def
      parse_safeParse)

lemma throwing_outcome_Inl:
  "throwing_outcome sc dflt resp = Inl e
     \<longleftrightarrow> safe_outcome sc dflt (to_safe resp) = Inr (Failure e)
         \<or> safe_outcome sc dflt (to_safe resp) = Inl e"
  by (cases sc; cases resp) (auto simp: safe_outcome_def throwing_outcome_def to_safe_def
      parse_safeParse)

lemma safe_outcome_Inl:
  "safe_outcome sc dflt answer = Inl e \<longleftrightarrow> validation_throws sc dflt answer e"
  by (cases sc; cases answer) (simp_all add: safe_outcome_def validation_throws_def
      parse_safeParse)

subsection \<open>The schemas\<close>

lemma collect_Valid: "collect rs = Valid vs \<Longrightarrow> rs = map Valid vs"
  by (induction rs arbitrary: vs) (auto split: validation.splits)

lemma collect_Thrown: "collect rs = Thrown e \<Longrightarrow> Thrown e \<in> set rs"
  by (induction rs) (auto split: validation.splits)

lemma at_path_Valid: "at_path p r = Valid v \<longleftrightarrow> r = Valid v"
  by (cases r) (simp_all add: at_path_def)

lemma at_path_Thrown: "at_path p r = Thrown e \<longleftrightarrow> r = Thrown e"
  by (cases r) (simp_all add: at_path_def)

lemma z_string_Valid: "z_string x = Valid v \<Longrightarrow> x = Some v"
  by (auto simp: z_string_def split: option.splits json.splits)

lemma z_boolean_Valid: "z_boolean x = Valid v \<Longrightarrow> x = Some v"
  by (auto simp: z_boolean_def split: option.splits json.splits)

lemma z_number_Valid: "z_number x = Valid v \<Longrightarrow> x = Some v"
  by (auto simp: z_number_def split: option.splits json.splits)

lemma primitives_total:
  "z_string x \<noteq> Thrown e" "z_boolean x \<noteq> Thrown e" "z_number x \<noteq> Thrown e"
  by (auto simp: z_string_def z_boolean_def z_number_def split: option.splits json.splits)

lemma nullable_Valid:
  assumes "\<And>x v. S x = Valid v \<Longrightarrow> x = Some v" and "nullable S x = Valid v"
  shows "x = Some v"
  using assms by (auto simp: nullable_def split: option.splits json.splits)

lemma nullable_total:
  assumes "\<And>x. S x \<noteq> Thrown e" shows "nullable S x \<noteq> Thrown e"
  using assms by (auto simp: nullable_def split: option.splits json.splits)

lemma z_array_Valid:
  assumes S: "\<And>y v. S (Some y) = Valid v \<Longrightarrow> v = g y" and a: "z_array S x = Valid v"
  shows "\<exists>xs. x = Some (JArray xs) \<and> v = JArray (map g xs)"
proof -
  from a obtain xs vs where x: "x = Some (JArray xs)" and v: "v = JArray vs"
    and c: "collect (map (\<lambda>(i, y). at_path (Index i) (S (Some y))) (enumerate 0 xs)) = Valid vs"
    by (auto simp: z_array_def split: option.splits json.splits validation.splits)
  from collect_Valid [OF c]
  have m: "map (\<lambda>(i, y). at_path (Index i) (S (Some y))) (enumerate 0 xs) = map Valid vs" .
  then have len: "length vs = length xs"
    by (metis length_enumerate length_map)
  have "vs ! i = map g xs ! i" if "i < length xs" for i
  proof -
    from m have "map (\<lambda>(i, y). at_path (Index i) (S (Some y))) (enumerate 0 xs) ! i = map Valid vs ! i"
      by simp
    with that len have "at_path (Index i) (S (Some (xs ! i))) = Valid (vs ! i)"
      by (simp add: nth_enumerate_eq)
    then show ?thesis
      using S that by (simp add: at_path_Valid)
  qed
  with len have "vs = map g xs"
    by (simp add: nth_equalityI)
  with x v show ?thesis by simp
qed

lemma z_array_total:
  assumes "\<And>x. S x \<noteq> Thrown e" shows "z_array S x \<noteq> Thrown e"
proof
  assume "z_array S x = Thrown e"
  then obtain xs where
    "collect (map (\<lambda>(i, y). at_path (Index i) (S (Some y))) (enumerate 0 xs)) = Thrown e"
    by (auto simp: z_array_def split: option.splits json.splits validation.splits)
  from collect_Thrown [OF this] obtain i y where "at_path (Index i) (S (Some y)) = Thrown e"
    by auto
  then have "S (Some y) = Thrown e"
    by (simp add: at_path_Thrown)
  with assms show False by simp
qed

lemma foldl_fmupd_other:
  "k \<notin> fst ` set kvs \<Longrightarrow>
     fmlookup (foldl (\<lambda>acc (k, v). fmupd k v acc) acc kvs) k = fmlookup acc k"
  by (induction kvs arbitrary: acc) auto

lemma foldl_fmupd_some:
  "k \<in> fst ` set kvs \<Longrightarrow>
     \<exists>v. (k, v) \<in> set kvs \<and> fmlookup (foldl (\<lambda>acc (k, v). fmupd k v acc) acc kvs) k = Some v"
proof (induction kvs arbitrary: acc)
  case Nil
  then show ?case by simp
next
  case (Cons kv kvs)
  obtain k' v' where kv: "kv = (k', v')" by (cases kv)
  show ?case
  proof (cases "k \<in> fst ` set kvs")
    case True
    from Cons.IH [OF True, of "fmupd k' v' acc"] show ?thesis
      by (auto simp: kv)
  next
    case False
    with Cons.prems have "k = k'" by (auto simp: kv)
    with False show ?thesis
      by (simp add: kv foldl_fmupd_other)
  qed
qed

lemma field_Valid:
  assumes "field m kS = Valid kv"
  shows "fst kv = fst kS \<and> snd kS (fmlookup m (fst kS)) = Valid (snd kv)"
  using assms
  by (cases kS) (auto simp: field_def at_path_Valid split: validation.splits)

lemma z_object_Valid:
  assumes S: "\<And>k S x v. (k, S) \<in> set shape \<Longrightarrow> S x = Valid v \<Longrightarrow> \<exists>y. x = Some y \<and> v = g k y"
    and g: "\<And>k y. k \<notin> fst ` set shape \<Longrightarrow> g k y = y"
    and a: "z_object Passthrough shape x = Valid v"
  shows "\<exists>m. x = Some (JObject m) \<and> v = JObject (fmdrop ''__proto__'' (fmmap_keys g m))"
proof -
  from a obtain m kvs where x: "x = Some (JObject m)"
    and c: "collect (map (field m) shape) = Valid kvs"
    and v: "v = JObject (fmdrop ''__proto__'' (foldl (\<lambda>acc (k, v). fmupd k v acc) m kvs))"
    by (auto simp: z_object_def split: option.splits json.splits validation.splits)
  from collect_Valid [OF c] have m: "map (field m) shape = map Valid kvs" .
  then have len: "length kvs = length shape"
    by (metis length_map)
  have nth: "fst (kvs ! i) = fst (shape ! i)
      \<and> snd (shape ! i) (fmlookup m (fst (shape ! i))) = Valid (snd (kvs ! i))"
    if "i < length shape" for i
  proof -
    from m have "map (field m) shape ! i = map Valid kvs ! i" by simp
    with that len have "field m (shape ! i) = Valid (kvs ! i)" by simp
    from field_Valid [OF this] show ?thesis .
  qed
  have keys: "fst ` set kvs = fst ` set shape"
  proof -
    have "map fst kvs = map fst shape"
      using len nth by (intro nth_equalityI) simp_all
    then have "set (map fst kvs) = set (map fst shape)" by simp
    then show ?thesis by simp
  qed
  have vals: "\<exists>y. fmlookup m k = Some y \<and> w = g k y" if "(k, w) \<in> set kvs" for k w
  proof -
    from that obtain i where i: "i < length kvs" and kw: "kvs ! i = (k, w)"
      by (auto simp: in_set_conv_nth)
    from i len have il: "i < length shape" by simp
    from nth [OF il] kw
    have k: "fst (shape ! i) = k" and w: "snd (shape ! i) (fmlookup m k) = Valid w"
      by simp_all
    from il have "shape ! i \<in> set shape" by simp
    with k have "(k, snd (shape ! i)) \<in> set shape"
      by (metis prod.collapse)
    from S [OF this w] show ?thesis by auto
  qed
  have "foldl (\<lambda>acc (k, v). fmupd k v acc) m kvs = fmmap_keys g m"
  proof (rule fmap_ext)
    fix k
    show "fmlookup (foldl (\<lambda>acc (k, v). fmupd k v acc) m kvs) k = fmlookup (fmmap_keys g m) k"
    proof (cases "k \<in> fst ` set kvs")
      case True
      from foldl_fmupd_some [OF True, of m] obtain w where w: "(k, w) \<in> set kvs"
        and l: "fmlookup (foldl (\<lambda>acc (k, v). fmupd k v acc) m kvs) k = Some w"
        by blast
      from vals [OF w] l show ?thesis by auto
    next
      case False
      with keys have "k \<notin> fst ` set shape" by simp
      from g [OF this] foldl_fmupd_other [OF False, of m] show ?thesis
        by (cases "fmlookup m k") simp_all
    qed
  qed
  with x v show ?thesis by simp
qed

lemma z_object_total:
  assumes "\<And>k S x. (k, S) \<in> set shape \<Longrightarrow> S x \<noteq> Thrown e"
  shows "z_object mode shape x \<noteq> Thrown e"
proof
  assume "z_object mode shape x = Thrown e"
  then obtain m where "collect (map (field m) shape) = Thrown e"
    by (auto simp: z_object_def split: option.splits json.splits validation.splits)
  from collect_Thrown [OF this] obtain k S where "(k, S) \<in> set shape" "field m (k, S) = Thrown e"
    by auto
  with assms show False
    by (auto simp: field_def at_path_Thrown split: validation.splits)
qed

lemma fmmap_keys_same: "fmmap_keys (\<lambda>k y. y) m = m"
  by (rule fmap_ext) (simp add: option.map_ident)

lemma nullable_string_Valid: "nullable z_string x = Valid v \<Longrightarrow> x = Some v"
  by (rule nullable_Valid [of z_string]) (auto dest: z_string_Valid)

lemma nullable_number_Valid: "nullable z_number x = Valid v \<Longrightarrow> x = Some v"
  by (rule nullable_Valid [of z_number]) (auto dest: z_number_Valid)

lemma WorkspaceResponseSchema_Valid:
  assumes "WorkspaceResponseSchema x = Valid v"
  shows "\<exists>y. x = Some y \<and> v = without_proto y"
proof -
  have "\<exists>m. x = Some (JObject m) \<and> v = JObject (fmdrop ''__proto__'' (fmmap_keys (\<lambda>k y. y) m))"
    by (rule z_object_Valid [OF _ _ assms [unfolded WorkspaceResponseSchema_def]])
       (auto dest: z_string_Valid nullable_string_Valid)
  then show ?thesis
    by (auto simp: fmmap_keys_same without_proto_def)
qed

lemma PaginationMetadataSchema_Valid:
  assumes "PaginationMetadataSchema x = Valid v"
  shows "\<exists>y. x = Some y \<and> v = without_proto y"
proof -
  have "\<exists>m. x = Some (JObject m) \<and> v = JObject (fmdrop ''__proto__'' (fmmap_keys (\<lambda>k y. y) m))"
    by (rule z_object_Valid [OF _ _ assms [unfolded PaginationMetadataSchema_def]])
       (auto dest: z_boolean_Valid nullable_string_Valid nullable_number_Valid)
  then show ?thesis
    by (auto simp: fmmap_keys_same without_proto_def)
qed

lemma workspace_array_Valid:
  assumes "z_array WorkspaceResponseSchema x = Valid v"
  shows "\<exists>y. x = Some y \<and> v = listing_part ''data'' y"
proof -
  have "\<exists>xs. x = Some (JArray xs) \<and> v = JArray (map without_proto xs)"
    by (rule z_array_Valid [OF _ assms]) (auto dest: WorkspaceResponseSchema_Valid)
  then show ?thesis
    by (auto simp: listing_part_def)
qed

lemma ListWorkspacesSchema_Valid:
  assumes "ListWorkspacesSchema x = Valid v"
  shows "\<exists>y. x = Some y \<and> v = listing_without_proto y"
proof -
  have "\<exists>m. x = Some (JObject m) \<and> v = JObject (fmdrop ''__proto__'' (fmmap_keys listing_part m))"
  proof (rule z_object_Valid [OF _ _ assms [unfolded ListWorkspacesSchema_def]])
    fix k S x v
    assume "(k, S) \<in> set [(''data'', z_array WorkspaceResponseSchema),
        (''pagination'', PaginationMetadataSchema)]" and "S x = Valid v"
    then show "\<exists>y. x = Some y \<and> v = listing_part k y"
      by (auto dest: workspace_array_Valid PaginationMetadataSchema_Valid
          simp: listing_part_def)
  next
    fix k y
    assume "k \<notin> fst ` set [(''data'', z_array WorkspaceResponseSchema),
        (''pagination'', PaginationMetadataSchema)]"
    then show "listing_part k y = y"
      by (simp add: listing_part_def)
  qed
  then show ?thesis
    by (auto simp: listing_without_proto_def)
qed

lemma WorkspaceResponseSchema_total: "WorkspaceResponseSchema x \<noteq> Thrown e"
  unfolding WorkspaceResponseSchema_def
  by (rule z_object_total) (auto simp: primitives_total nullable_total)

lemma PaginationMetadataSchema_total: "PaginationMetadataSchema x \<noteq> Thrown e"
  unfolding PaginationMetadataSchema_def
  by (rule z_object_total) (auto simp: primitives_total nullable_total)

lemma ListWorkspacesSchema_total: "ListWorkspacesSchema x \<noteq> Thrown e"
  unfolding ListWorkspacesSchema_def
  by (rule z_object_total)
     (auto simp: PaginationMetadataSchema_total z_array_total WorkspaceResponseSchema_total)

lemma accepted_workspace:
  "accepts WorkspaceResponseSchema r \<Longrightarrow> parse WorkspaceResponseSchema r = Inr (without_proto r)"
  by (cases "WorkspaceResponseSchema (Some r)")
     (auto simp: accepts_def parse_def dest: WorkspaceResponseSchema_Valid)

lemma accepted_listing:
  "accepts ListWorkspacesSchema r \<Longrightarrow> parse ListWorkspacesSchema r = Inr (listing_without_proto r)"
  by (cases "ListWorkspacesSchema (Some r)")
     (auto simp: accepts_def parse_def dest: ListWorkspacesSchema_Valid)

lemma json_get_without_proto:
  "json_get (without_proto j) k = (if k = ''__proto__'' then None else json_get j k)"
  by (cases j) (auto simp: json_get_def without_proto_def)

lemma json_get_listing:
  "json_get (listing_without_proto j) k
     = (if k = ''__proto__'' then None else map_option (listing_part k) (json_get j k))"
  by (cases j) (auto simp: json_get_def listing_without_proto_def)

subsection \<open>Parameters and outcomes\<close>

lemma cursor_in_query:
  "(''cursor'', c) \<in> set (supplied_query lp) \<longleftrightarrow> opt_cursor lp = Some c \<and> c \<noteq> []"
  by (cases "opt_cursor lp"; cases "opt_limit lp") (auto simp: supplied_query_def)

lemma limit_in_query:
  "(''limit'', v) \<in> set (supplied_query lp)
     \<longleftrightarrow> (\<exists>l. opt_limit lp = Some l \<and> l \<noteq> Integer 0 \<and> l \<noteq> NaN \<and> v = number_toString l)"
  by (cases "opt_cursor lp"; cases "opt_limit lp") (auto simp: supplied_query_def)

lemma url_falsy:
  "listWorkspaces_url (Some (p\<lparr>cursor := Some [], limit := Some (Integer 0)\<rparr>)) = ''/workspaces''"
  "listWorkspaces_url (Some (p\<lparr>cursor := Some []\<rparr>)) = listWorkspaces_url (Some (p\<lparr>cursor := None\<rparr>))"
  "listWorkspaces_url (Some (p\<lparr>limit := Some (Integer 0)\<rparr>)) = listWorkspaces_url (Some (p\<lparr>limit := None\<rparr>))"
  by (simp_all add: listWorkspaces_url_def supplied_query_def opt_cursor_def opt_limit_def)

lemma schema_of_update:
  "opt_schema (Some (p\<lparr>cursor := a\<rparr>)) = opt_schema (Some p)"
  "opt_schema (Some (p\<lparr>limit := b\<rparr>)) = opt_schema (Some p)"
  by (simp_all add: opt_schema_def)

lemma validate_of_update:
  "validateActionParameters (Some (p\<lparr>cursor := a\<rparr>)) = validateActionParameters (Some p)"
  "validateActionParameters (Some (p\<lparr>limit := b\<rparr>)) = validateActionParameters (Some p)"
  "safeValidateActionParameters (Some (p\<lparr>cursor := a\<rparr>)) = safeValidateActionParameters (Some p)"
  "safeValidateActionParameters (Some (p\<lparr>limit := b\<rparr>)) = safeValidateActionParameters (Some p)"
  by (simp_all add: validateActionParameters_def safeValidateActionParameters_def schema_of_update)

lemma validate_both:
  "validateActionParameters (Some (p\<lparr>cursor := a, limit := b\<rparr>)) = validateActionParameters (Some p)"
  by (simp add: validateActionParameters_def opt_schema_def)

lemma default_never_throws:
  "\<not> validation_throws SchemaFalse dflt answer e"
  "\<not> validation_throws (SchemaOther x) dflt answer e"
  "\<not> validation_throws SchemaUndefined ListWorkspacesSchema answer e"
  "\<not> validation_throws SchemaUndefined WorkspaceResponseSchema answer e"
  by (cases answer; simp add: validation_throws_def ListWorkspacesSchema_total
      WorkspaceResponseSchema_total)+

lemma safe_outcome_cases:
  "(\<exists>d. safe_outcome sc dflt answer = Inr (Success d))
     \<or> (\<exists>e. safe_outcome sc dflt answer = Inr (Failure e))
     \<or> (\<exists>e. safe_outcome sc dflt answer = Inl e \<and> validation_throws sc dflt answer e)"
proof (cases "safe_outcome sc dflt answer")
  case (Inl e)
  then show ?thesis by (simp add: safe_outcome_Inl [symmetric])
next
  case (Inr res)
  then show ?thesis by (cases res) simp_all
qed

lemma safe_outcome_facts:
  "safe_outcome (SchemaOther x) dflt answer = Inr (Failure ParameterValidationError)"
  "safeValidateActionParameters ps = None \<Longrightarrow>
     safe_outcome (opt_schema ps) dflt (Failure he) = Inr (Failure he)"
  "S (Some d) = Invalid issues \<Longrightarrow>
     safe_outcome (SchemaZod S) dflt (Success d) = Inr (Failure (ZodError issues))"
  "dflt (Some d) = Invalid issues \<Longrightarrow>
     safe_outcome SchemaUndefined dflt (Success d) = Inr (Failure (ZodError issues))"
  by (auto simp: safe_outcome_def safeParse_def safeValidateActionParameters_def
      split: schema_param.splits)

lemma safe_outcome_no_throw:
  "sc = SchemaFalse \<or> sc = SchemaUndefined \<Longrightarrow>
     \<exists>res. safe_outcome sc ListWorkspacesSchema answer = Inr res"
  "sc = SchemaFalse \<or> sc = SchemaUndefined \<Longrightarrow>
     \<exists>res. safe_outcome sc WorkspaceResponseSchema answer = Inr res"
  using safe_outcome_Inl [of sc ListWorkspacesSchema answer]
    safe_outcome_Inl [of sc WorkspaceResponseSchema answer] default_never_throws
  by (cases "safe_outcome sc ListWorkspacesSchema answer"; 
      cases "safe_outcome sc WorkspaceResponseSchema answer"; auto)+

subsection \<open>The concrete inputs evaluated\<close>

lemma without_proto_same: "json_get j ''__proto__'' = None \<Longrightarrow> without_proto j = j"
  by (cases j) (auto simp: json_get_def without_proto_def intro!: fmap_ext)

lemma listing_without_proto_same:
  assumes "fmlookup m ''__proto__'' = None"
    and "\<And>k v. fmlookup m k = Some v \<Longrightarrow> listing_part k v = v"
  shows "listing_without_proto (JObject m) = JObject m"
proof -
  have "fmdrop ''__proto__'' (fmmap_keys listing_part m) = m"
  proof (rule fmap_ext)
    fix k
    show "fmlookup (fmdrop ''__proto__'' (fmmap_keys listing_part m)) k = fmlookup m k"
      using assms by (cases "fmlookup m k") auto
  qed
  then show ?thesis
    by (simp add: listing_without_proto_def)
qed

lemma demo_workspace_plain: "without_proto demo_workspace = demo_workspace"
  by (rule without_proto_same) (simp add: json_get_def demo_workspace_def fmlookup_of_list)

lemma demo_listing_plain: "listing_without_proto demo_listing = demo_listing"
  unfolding demo_listing_def
  by (rule listing_without_proto_same)
     (auto simp: fmlookup_of_list listing_part_def demo_workspace_plain json_get_def
       intro!: without_proto_same split: if_splits)

lemma demo_get_simps:
  "fst (get demo_client ''/workspaces'' w) = Inr demo_listing"
  "fst (get demo_client ''/workspaces/acme'' w) = Inr demo_workspace"
  "fst (get demo_client ''/workspaces/proto'' w) = Inr proto_workspace"
  "fst (get demo_client ''/workspaces/none'' w) = Inl (RequestError 404 ''Not Found'')"
  "fst (get demo_client ''/workspaces/legacy'' w) = Inr (JString ''gone'')"
  "fst (get demo_client ''/workspaces?cursor=old'' w) = Inr (JArray [])"
  "fst (get demo_client ''/workspaces?cursor=zzz'' w) = Inl (RequestError 404 ''Not Found'')"
  by (simp_all add: demo_client_def demo_get_def)

lemma demo_safeGet: "fst (safeGet demo_client url w) = to_safe (fst (get demo_client url w))"
  by (simp add: demo_client_def split: prod.splits)

lemma demo_safeGet_simps:
  "fst (safeGet demo_client ''/workspaces'' w) = Success demo_listing"
  "fst (safeGet demo_client ''/workspaces/acme'' w) = Success demo_workspace"
  "fst (safeGet demo_client ''/workspaces/none'' w) = Failure (RequestError 404 ''Not Found'')"
  "fst (safeGet demo_client ''/workspaces/legacy'' w) = Success (JString ''gone'')"
  "fst (safeGet demo_client ''/workspaces?cursor=old'' w) = Success (JArray [])"
  "fst (safeGet demo_client ''/workspaces?cursor=zzz'' w) = Failure (RequestError 404 ''Not Found'')"
  by (simp_all add: demo_safeGet demo_get_simps to_safe_def)

lemma demo_world:
  "snd (get demo_client url w) = Suc w"
  "snd (safeGet demo_client url w) = Suc w"
  by (simp_all add: demo_client_def demo_get_def)

lemma url_None: "listWorkspaces_url None = ''/workspaces''"
  by (simp add: listWorkspaces_url_def supplied_query_def opt_cursor_def opt_limit_def)

lemma url_plain:
  "listWorkspaces_url (Some \<lparr>schema = sc, cursor = None, limit = None\<rparr>) = ''/workspaces''"
  by (simp add: listWorkspaces_url_def supplied_query_def opt_cursor_def opt_limit_def)

lemma url_cursor:
  "listWorkspaces_url (Some \<lparr>schema = sc, cursor = Some ''old'', limit = None\<rparr>)
     = ''/workspaces?cursor=old''"
  "listWorkspaces_url (Some \<lparr>schema = sc, cursor = Some ''zzz'', limit = None\<rparr>)
     = ''/workspaces?cursor=zzz''"
  by (simp_all add: listWorkspaces_url_def supplied_query_def opt_cursor_def opt_limit_def
      toString_def urlencode_def urlencode_byte_def)

lemma url_page:
  "listWorkspaces_url (Some \<lparr>schema = sc, cursor = Some ''a b'', limit = Some (Integer 20)\<rparr>)
     = ''/workspaces?cursor=a+b&limit=20''"
  "listWorkspaces_url (Some \<lparr>schema = sc, cursor = None, limit = Some (Double ''0.5'')\<rparr>)
     = ''/workspaces?limit=0.5''"
  "listWorkspaces_url (Some \<lparr>schema = sc, cursor = None, limit = Some (Integer 0)\<rparr>)
     = ''/workspaces''"
  "listWorkspaces_url (Some \<lparr>schema = sc, cursor = None, limit = Some NaN\<rparr>)
     = ''/workspaces''"
  by (simp_all add: listWorkspaces_url_def supplied_query_def opt_cursor_def opt_limit_def
      toString_def urlencode_def urlencode_byte_def number_toString_def digit_char_def)

lemma opt_schema_simps:
  "opt_schema None = SchemaUndefined"
  "opt_schema (Some \<lparr>schema = sc\<rparr>) = sc"
  "opt_schema (Some \<lparr>schema = sc, cursor = cu, limit = li\<rparr>) = sc"
  "opt_schema bad_list_params = SchemaOther (JString ''yes'')"
  "opt_schema bad_get_params = SchemaOther (JString ''yes'')"
  by (simp_all add: opt_schema_def bad_list_params_def bad_get_params_def)

lemma validate_simps:
  "validateActionParameters bad_list_params = Some ParameterValidationError"
  "validateActionParameters bad_get_params = Some ParameterValidationError"
  "safeValidateActionParameters bad_list_params = Some (Failure ParameterValidationError)"
  "safeValidateActionParameters bad_get_params = Some (Failure ParameterValidationError)"
  "validateActionParameters (None :: ListWorkspacesParameters option) = None"
  "validateActionParameters (None :: GetWorkspaceParameters option) = None"
  "safeValidateActionParameters (None :: ListWorkspacesParameters option) = None"
  "safeValidateActionParameters (None :: GetWorkspaceParameters option) = None"
  "validateActionParameters (Some \<lparr>schema = SchemaFalse, cursor = cu, limit = li\<rparr>) = None"
  "safeValidateActionParameters (Some \<lparr>schema = SchemaFalse, cursor = cu, limit = li\<rparr>) = None"
  "validateActionParameters (Some \<lparr>schema = SchemaUndefined, cursor = cu, limit = li\<rparr>) = None"
  "safeValidateActionParameters (Some \<lparr>schema = SchemaUndefined, cursor = cu, limit = li\<rparr>) = None"
  "validateActionParameters (Some \<lparr>schema = SchemaZod S\<rparr>) = None"
  "safeValidateActionParameters (Some \<lparr>schema = SchemaZod S\<rparr>) = None"
  by (simp_all add: validateActionParameters_def safeValidateActionParameters_def opt_schema_simps)

lemma wrong_shape:
  "ListWorkspacesSchema (Some (JArray [])) = Invalid [Issue [] ''object'']"
  "WorkspaceResponseSchema (Some (JString ''gone'')) = Invalid [Issue [] ''object'']"
  "demo_schema (Some demo_listing) = Invalid [Issue [] ''string'']"
  "demo_schema (Some demo_workspace) = Invalid [Issue [] ''string'']"
  by (simp_all add: ListWorkspacesSchema_def WorkspaceResponseSchema_def z_object_def
      demo_schema_def z_string_def demo_listing_def demo_workspace_def)

lemma demo_accepted:
  "accepts ListWorkspacesSchema demo_listing"
  "accepts WorkspaceResponseSchema demo_workspace"
  "accepts WorkspaceResponseSchema proto_workspace"
  by (simp_all add: accepts_def ListWorkspacesSchema_def z_object_def demo_listing_def field_def
        fmlookup_of_list at_path_def z_array_def WorkspaceResponseSchema_def demo_workspace_def
        proto_workspace_def z_string_def nullable_def PaginationMetadataSchema_def z_boolean_def
        z_number_def)

lemma demo_parsed:
  "parse ListWorkspacesSchema demo_listing = Inr demo_listing"
  "parse WorkspaceResponseSchema demo_workspace = Inr demo_workspace"
  by (simp_all add: accepted_listing accepted_workspace demo_accepted demo_listing_plain
      demo_workspace_plain)

lemma proto_dropped:
  "json_get proto_workspace ''__proto__'' = Some (JObject (fmap_of_list [(''admin'', JBool True)]))"
  "json_get (without_proto proto_workspace) ''__proto__'' = None"
  "json_get (without_proto proto_workspace) ''name'' = Some (JString ''Proto'')"
  by (simp_all add: json_get_without_proto) (simp_all add: json_get_def proto_workspace_def
      fmlookup_of_list)

lemma throwing_demo:
  "validation_throws (SchemaZod throwing_schema) dflt (Success d) e
     \<longleftrightarrow> e = Exception ''transform failed''"
  by (auto simp: validation_throws_def throwing_schema_def)

lemma demo_schema_total: "\<not> validation_throws (SchemaZod demo_schema) dflt answer e"
  by (cases answer) (simp_all add: validation_throws_def demo_schema_def primitives_total)

section \<open>The claims\<close>

text \<open>
  C1 (schema override). Let the client answer the action's request with the response \<open>r\<close>.
  With \<^verbatim>\<open>schema: false\<close> the action returns \<open>r\<close> as it is; with a custom schema \<open>S\<close> it
  returns what parsing \<open>r\<close> with \<open>S\<close> gives, and throws the schema's issues when \<open>S\<close>
  rejects \<open>r\<close>; with no \<^verbatim>\<open>schema\<close> option (or no parameters at all) it parses \<open>r\<close> with
  the action's default schema: \<open>ListWorkspacesSchema\<close> for \<^verbatim>\<open>listWorkspaces\<close>,
  \<open>WorkspaceResponseSchema\<close> for \<^verbatim>\<open>getWorkspace\<close>.
\<close>

theorem schema_override:
  assumes "fst (get client (listWorkspaces_url lp) (world s)) = Inr r"
    and "fst (get client (''/workspaces/'' @ teamSlug) (world s)) = Inr r'"
  shows "(opt_schema lp = SchemaFalse \<longrightarrow> fst (listWorkspaces client lp s) = Inr r)
       \<and> (opt_schema lp = SchemaZod S \<longrightarrow> fst (listWorkspaces client lp s) = parse S r)
       \<and> (opt_schema lp = SchemaUndefined \<longrightarrow>
            fst (listWorkspaces client lp s) = parse ListWorkspacesSchema r)
       \<and> (opt_schema gp = SchemaFalse \<longrightarrow> fst (getWorkspace client teamSlug gp s) = Inr r')
       \<and> (opt_schema gp = SchemaZod S' \<longrightarrow> fst (getWorkspace client teamSlug gp s) = parse S' r')
       \<and> (opt_schema gp = SchemaUndefined \<longrightarrow>
            fst (getWorkspace client teamSlug gp s) = parse WorkspaceResponseSchema r')"
  using assms by (simp add: fst_listWorkspaces fst_getWorkspace throwing_outcome_def)

theorem schema_override_witness:
  "fst (listWorkspaces demo_client (Some \<lparr>schema = SchemaFalse, cursor = None, limit = None\<rparr>) demo_run)
     = Inr demo_listing
   \<and> fst (listWorkspaces demo_client
            (Some \<lparr>schema = SchemaZod demo_schema, cursor = None, limit = None\<rparr>) demo_run)
     = Inl (ZodError [Issue [] ''string''])
   \<and> fst (listWorkspaces demo_client None demo_run) = parse ListWorkspacesSchema demo_listing
   \<and> fst (getWorkspace demo_client ''acme'' (Some \<lparr>schema = SchemaFalse\<rparr>) demo_run)
     = Inr demo_workspace
   \<and> fst (getWorkspace demo_client ''acme'' (Some \<lparr>schema = SchemaZod demo_schema\<rparr>) demo_run)
     = Inl (ZodError [Issue [] ''string''])
   \<and> fst (getWorkspace demo_client ''acme'' None demo_run)
     = parse WorkspaceResponseSchema demo_workspace"
proof -
  have g: "fst (get demo_client (''/workspaces/'' @ ''acme'') (world demo_run)) = Inr demo_workspace"
    by (simp add: demo_get_simps)
  have l: "fst (get demo_client (listWorkspaces_url lp) (world demo_run)) = Inr demo_listing"
    if "listWorkspaces_url lp = ''/workspaces''" for lp
    by (simp add: that demo_get_simps)
  have p: "parse demo_schema demo_listing = Inl (ZodError [Issue [] ''string''])"
    "parse demo_schema demo_workspace = Inl (ZodError [Issue [] ''string''])"
    by (simp_all add: parse_def wrong_shape)
  show ?thesis
    using
      schema_override [OF l [OF url_plain] g,
        of SchemaFalse demo_schema "Some \<lparr>schema = SchemaFalse\<rparr>" demo_schema]
      schema_override [OF l [OF url_plain] g,
        of "SchemaZod demo_schema" demo_schema "Some \<lparr>schema = SchemaZod demo_schema\<rparr>" demo_schema]
      schema_override [OF l [OF url_None] g, of demo_schema None demo_schema]
    by (simp add: opt_schema_simps p)
qed

text \<open>
  C2, amended (the safe variant and the throwing one). Assume that the client's
  \<^verbatim>\<open>safeGet\<close> returns the tagged form of what its \<^verbatim>\<open>get\<close> returns or throws. Then
  \<^verbatim>\<open>safeListWorkspaces\<close> returns \<^verbatim>\<open>{success: true, data: v}\<close> exactly when
  \<^verbatim>\<open>listWorkspaces\<close> returns \<open>v\<close>. \<^verbatim>\<open>listWorkspaces\<close> throws \<open>e\<close> exactly when
  \<^verbatim>\<open>safeListWorkspaces\<close> returns \<^verbatim>\<open>{success: false, error: e}\<close> or itself throws \<open>e\<close>,
  and it throws \<open>e\<close> exactly when validating the client's response with the schema in
  force throws \<open>e\<close>: neither safe variant catches anything. When that validation does not
  throw, \<^verbatim>\<open>safeListWorkspaces\<close> returns \<^verbatim>\<open>{success: false, error: e}\<close> exactly when
  \<^verbatim>\<open>listWorkspaces\<close> throws \<open>e\<close>, whether \<open>e\<close> is the parameter error, the client's error
  or the schema's issues. Likewise for \<^verbatim>\<open>safeGetWorkspace\<close> and \<^verbatim>\<open>getWorkspace\<close>.
\<close>

theorem safe_variant_agrees:
  assumes "\<And>url. fst (safeGet client url (world s)) = to_safe (fst (get client url (world s)))"
  shows "(fst (safeListWorkspaces client lp s) = Inr (Success v)
            \<longleftrightarrow> fst (listWorkspaces client lp s) = Inr v)
       \<and> (fst (listWorkspaces client lp s) = Inl e
            \<longleftrightarrow> fst (safeListWorkspaces client lp s) = Inr (Failure e)
                \<or> fst (safeListWorkspaces client lp s) = Inl e)
       \<and> (fst (safeListWorkspaces client lp s) = Inl e
            \<longleftrightarrow> validation_throws (opt_schema lp) ListWorkspacesSchema
                  (fst (safeGet client (listWorkspaces_url lp) (world s))) e)
       \<and> ((\<forall>x. \<not> validation_throws (opt_schema lp) ListWorkspacesSchema
                  (fst (safeGet client (listWorkspaces_url lp) (world s))) x) \<longrightarrow>
            (fst (safeListWorkspaces client lp s) = Inr (Failure e)
               \<longleftrightarrow> fst (listWorkspaces client lp s) = Inl e))
       \<and> (fst (safeGetWorkspace client teamSlug gp s) = Inr (Success v')
            \<longleftrightarrow> fst (getWorkspace client teamSlug gp s) = Inr v')
       \<and> (fst (getWorkspace client teamSlug gp s) = Inl e'
            \<longleftrightarrow> fst (safeGetWorkspace client teamSlug gp s) = Inr (Failure e')
                \<or> fst (safeGetWorkspace client teamSlug gp s) = Inl e')
       \<and> (fst (safeGetWorkspace client teamSlug gp s) = Inl e'
            \<longleftrightarrow> validation_throws (opt_schema gp) WorkspaceResponseSchema
                  (fst (safeGet client (''/workspaces/'' @ teamSlug) (world s))) e')
       \<and> ((\<forall>x. \<not> validation_throws (opt_schema gp) WorkspaceResponseSchema
                  (fst (safeGet client (''/workspaces/'' @ teamSlug) (world s))) x) \<longrightarrow>
            (fst (safeGetWorkspace client teamSlug gp s) = Inr (Failure e')
               \<longleftrightarrow> fst (getWorkspace client teamSlug gp s) = Inl e'))"
proof -
  let ?A = "fst (get client (listWorkspaces_url lp) (world s))"
  let ?B = "fst (get client (''/workspaces/'' @ teamSlug) (world s))"
  have sl: "fst (safeListWorkspaces client lp s)
      = safe_outcome (opt_schema lp) ListWorkspacesSchema (to_safe ?A)"
    by (simp only: fst_safeListWorkspaces assms)
  have sg: "fst (safeGetWorkspace client teamSlug gp s)
      = safe_outcome (opt_schema gp) WorkspaceResponseSchema (to_safe ?B)"
    by (simp only: fst_safeGetWorkspace assms)
  have ansl: "fst (safeGet client (listWorkspaces_url lp) (world s)) = to_safe ?A"
    and ansg: "fst (safeGet client (''/workspaces/'' @ teamSlug) (world s)) = to_safe ?B"
    by (rule assms)+
  note l1 = safe_outcome_Success [of "opt_schema lp" ListWorkspacesSchema ?A v]
  note l2 = throwing_outcome_Inl [of "opt_schema lp" ListWorkspacesSchema ?A e]
  note l3 = safe_outcome_Inl [of "opt_schema lp" ListWorkspacesSchema "to_safe ?A" e]
  note g1 = safe_outcome_Success [of "opt_schema gp" WorkspaceResponseSchema ?B v']
  note g2 = throwing_outcome_Inl [of "opt_schema gp" WorkspaceResponseSchema ?B e']
  note g3 = safe_outcome_Inl [of "opt_schema gp" WorkspaceResponseSchema "to_safe ?B" e']
  have l4: "fst (safeListWorkspaces client lp s) = Inr (Failure e)
      \<longleftrightarrow> fst (listWorkspaces client lp s) = Inl e"
    if "\<forall>x. \<not> validation_throws (opt_schema lp) ListWorkspacesSchema
                  (fst (safeGet client (listWorkspaces_url lp) (world s))) x"
    using that l2 l3 unfolding sl ansl fst_listWorkspaces by blast
  have g4: "fst (safeGetWorkspace client teamSlug gp s) = Inr (Failure e')
      \<longleftrightarrow> fst (getWorkspace client teamSlug gp s) = Inl e'"
    if "\<forall>x. \<not> validation_throws (opt_schema gp) WorkspaceResponseSchema
                  (fst (safeGet client (''/workspaces/'' @ teamSlug) (world s))) x"
    using that g2 g3 unfolding sg ansg fst_getWorkspace by blast
  show ?thesis
    apply (intro conjI impI)
           apply (simp only: sl fst_listWorkspaces l1)
          apply (simp only: sl fst_listWorkspaces l2)
         apply (simp only: sl ansl l3)
        apply (erule l4)
       apply (simp only: sg fst_getWorkspace g1)
      apply (simp only: sg fst_getWorkspace g2)
     apply (simp only: sg ansg g3)
    apply (erule g4)
    done
qed

theorem safe_variant_agrees_witness:
  "fst (safeListWorkspaces demo_client None demo_run) = Inr (Success demo_listing)
   \<and> fst (listWorkspaces demo_client None demo_run) = Inr demo_listing
   \<and> fst (safeGetWorkspace demo_client ''none'' None demo_run)
       = Inr (Failure (RequestError 404 ''Not Found''))
   \<and> fst (getWorkspace demo_client ''none'' None demo_run) = Inl (RequestError 404 ''Not Found'')
   \<and> fst (safeGetWorkspace demo_client ''acme'' (Some \<lparr>schema = SchemaZod throwing_schema\<rparr>)
            demo_run) = Inl (Exception ''transform failed'')
   \<and> fst (getWorkspace demo_client ''acme'' (Some \<lparr>schema = SchemaZod throwing_schema\<rparr>)
            demo_run) = Inl (Exception ''transform failed'')"
proof -
  have c: "fst (safeGet demo_client url (world demo_run))
             = to_safe (fst (get demo_client url (world demo_run)))" for url
    by (rule demo_safeGet)
  have l: "fst (listWorkspaces demo_client None demo_run) = Inr demo_listing"
    by (simp add: fst_listWorkspaces url_None demo_get_simps throwing_outcome_def opt_schema_simps
        demo_parsed)
  have g: "fst (getWorkspace demo_client ''none'' None demo_run)
             = Inl (RequestError 404 ''Not Found'')"
    by (simp add: fst_getWorkspace demo_get_simps throwing_outcome_def opt_schema_simps)
  note a = safe_variant_agrees [where client = demo_client and s = demo_run and lp = None
      and v = demo_listing and teamSlug = "''none''" and gp = None
      and e' = "RequestError 404 ''Not Found''", OF c]
  note b = safe_variant_agrees [where client = demo_client and s = demo_run and lp = None
      and teamSlug = "''acme''" and gp = "Some \<lparr>schema = SchemaZod throwing_schema\<rparr>"
      and e' = "Exception ''transform failed''", OF c]
  have 1: "fst (safeListWorkspaces demo_client None demo_run) = Inr (Success demo_listing)"
    using a l by simp
  have 2: "fst (safeGetWorkspace demo_client ''none'' None demo_run)
       = Inr (Failure (RequestError 404 ''Not Found''))"
    using a g by (simp add: opt_schema_simps default_never_throws)
  have 3: "fst (safeGetWorkspace demo_client ''acme'' (Some \<lparr>schema = SchemaZod throwing_schema\<rparr>)
            demo_run) = Inl (Exception ''transform failed'')"
    using b by (simp add: opt_schema_simps demo_safeGet_simps throwing_demo)
  have 4: "fst (getWorkspace demo_client ''acme'' (Some \<lparr>schema = SchemaZod throwing_schema\<rparr>)
            demo_run) = Inl (Exception ''transform failed'')"
    using b 3 by simp
  from 1 l 2 g 3 4 show ?thesis by simp
qed

text \<open>
  C2 as stated fails: with a custom schema whose transform throws, \<^verbatim>\<open>getWorkspace\<close> throws
  and \<^verbatim>\<open>safeGetWorkspace\<close>, on a client whose \<^verbatim>\<open>safeGet\<close> agrees with its \<^verbatim>\<open>get\<close>,
  returns no \<^verbatim>\<open>{success: false}\<close> result: it throws the same exception.
\<close>

theorem safe_variant_agrees_counterexample:
  "fst (safeGet demo_client ''/workspaces/acme'' (world demo_run))
     = to_safe (fst (get demo_client ''/workspaces/acme'' (world demo_run)))
   \<and> fst (getWorkspace demo_client ''acme'' (Some \<lparr>schema = SchemaZod throwing_schema\<rparr>) demo_run)
       = Inl (Exception ''transform failed'')
   \<and> fst (safeGetWorkspace demo_client ''acme'' (Some \<lparr>schema = SchemaZod throwing_schema\<rparr>)
            demo_run)
       = Inl (Exception ''transform failed'')"
  by (simp add: demo_safeGet fst_getWorkspace fst_safeGetWorkspace opt_schema_simps
      demo_get_simps throwing_outcome_def safe_outcome_def to_safe_def parse_def safeParse_def
      throwing_schema_def)

text \<open>
  C3, amended (how the safe variants end). Whatever the client, the parameters, the team slug
  and the run, \<^verbatim>\<open>safeListWorkspaces\<close> and \<^verbatim>\<open>safeGetWorkspace\<close> end in one of three ways:
  a tagged success, a tagged failure, or an exception, and the exception is \<open>e\<close> exactly
  when validating the client's response with the schema in force throws \<open>e\<close>. With
  \<^verbatim>\<open>schema: false\<close> or no \<^verbatim>\<open>schema\<close> option they never throw. An invalid \<^verbatim>\<open>schema\<close>
  option, a failure reported by the client, and a response for which the custom or the
  default schema reports issues each give a \<^verbatim>\<open>{success: false}\<close> result carrying that
  error.
\<close>

theorem safe_variant_outcomes:
  "((\<exists>d. fst (safeListWorkspaces client lp s) = Inr (Success d))
      \<or> (\<exists>e. fst (safeListWorkspaces client lp s) = Inr (Failure e))
      \<or> (\<exists>e. fst (safeListWorkspaces client lp s) = Inl e
            \<and> validation_throws (opt_schema lp) ListWorkspacesSchema
                  (fst (safeGet client (listWorkspaces_url lp) (world s))) e))
   \<and> (fst (safeListWorkspaces client lp s) = Inl te
        \<longleftrightarrow> validation_throws (opt_schema lp) ListWorkspacesSchema
              (fst (safeGet client (listWorkspaces_url lp) (world s))) te)
   \<and> (opt_schema lp = SchemaFalse \<or> opt_schema lp = SchemaUndefined \<longrightarrow>
        (\<exists>res. fst (safeListWorkspaces client lp s) = Inr res))
   \<and> (opt_schema lp = SchemaOther x \<longrightarrow>
        fst (safeListWorkspaces client lp s) = Inr (Failure ParameterValidationError))
   \<and> (safeValidateActionParameters lp = None
        \<and> fst (safeGet client (listWorkspaces_url lp) (world s)) = Failure he \<longrightarrow>
        fst (safeListWorkspaces client lp s) = Inr (Failure he))
   \<and> (fst (safeGet client (listWorkspaces_url lp) (world s)) = Success d
        \<and> opt_schema lp = SchemaZod S \<and> S (Some d) = Invalid issues \<longrightarrow>
        fst (safeListWorkspaces client lp s) = Inr (Failure (ZodError issues)))
   \<and> (fst (safeGet client (listWorkspaces_url lp) (world s)) = Success d
        \<and> opt_schema lp = SchemaUndefined \<and> ListWorkspacesSchema (Some d) = Invalid issues \<longrightarrow>
        fst (safeListWorkspaces client lp s) = Inr (Failure (ZodError issues)))
   \<and> ((\<exists>d. fst (safeGetWorkspace client teamSlug gp s) = Inr (Success d))
      \<or> (\<exists>e. fst (safeGetWorkspace client teamSlug gp s) = Inr (Failure e))
      \<or> (\<exists>e. fst (safeGetWorkspace client teamSlug gp s) = Inl e
            \<and> validation_throws (opt_schema gp) WorkspaceResponseSchema
                  (fst (safeGet client (''/workspaces/'' @ teamSlug) (world s))) e))
   \<and> (fst (safeGetWorkspace client teamSlug gp s) = Inl te'
        \<longleftrightarrow> validation_throws (opt_schema gp) WorkspaceResponseSchema
              (fst (safeGet client (''/workspaces/'' @ teamSlug) (world s))) te')
   \<and> (opt_schema gp = SchemaFalse \<or> opt_schema gp = SchemaUndefined \<longrightarrow>
        (\<exists>res. fst (safeGetWorkspace client teamSlug gp s) = Inr res))
   \<and> (opt_schema gp = SchemaOther x' \<longrightarrow>
        fst (safeGetWorkspace client teamSlug gp s) = Inr (Failure ParameterValidationError))
   \<and> (safeValidateActionParameters gp = None
        \<and> fst (safeGet client (''/workspaces/'' @ teamSlug) (world s)) = Failure he' \<longrightarrow>
        fst (safeGetWorkspace client teamSlug gp s) = Inr (Failure he'))
   \<and> (fst (safeGet client (''/workspaces/'' @ teamSlug) (world s)) = Success d'
        \<and> opt_schema gp = SchemaZod S' \<and> S' (Some d') = Invalid issues' \<longrightarrow>
        fst (safeGetWorkspace client teamSlug gp s) = Inr (Failure (ZodError issues')))
   \<and> (fst (safeGet client (''/workspaces/'' @ teamSlug) (world s)) = Success d'
        \<and> opt_schema gp = SchemaUndefined \<and> WorkspaceResponseSchema (Some d') = Invalid issues' \<longrightarrow>
        fst (safeGetWorkspace client teamSlug gp s) = Inr (Failure (ZodError issues')))"
  unfolding fst_safeListWorkspaces fst_safeGetWorkspace
  by (intro conjI impI safe_outcome_cases safe_outcome_Inl safe_outcome_no_throw;
      (elim conjE)?; simp add: safe_outcome_facts)

theorem safe_variant_outcomes_witness:
  "fst (safeListWorkspaces demo_client bad_list_params demo_run)
     = Inr (Failure ParameterValidationError)
   \<and> fst (safeGetWorkspace demo_client ''acme'' bad_get_params demo_run)
     = Inr (Failure ParameterValidationError)
   \<and> fst (safeListWorkspaces demo_client
            (Some \<lparr>schema = SchemaUndefined, cursor = Some ''zzz'', limit = None\<rparr>) demo_run)
     = Inr (Failure (RequestError 404 ''Not Found''))
   \<and> fst (safeGetWorkspace demo_client ''none'' None demo_run)
     = Inr (Failure (RequestError 404 ''Not Found''))
   \<and> fst (safeListWorkspaces demo_client
            (Some \<lparr>schema = SchemaZod demo_schema, cursor = None, limit = None\<rparr>) demo_run)
     = Inr (Failure (ZodError [Issue [] ''string'']))
   \<and> fst (safeGetWorkspace demo_client ''acme'' (Some \<lparr>schema = SchemaZod demo_schema\<rparr>) demo_run)
     = Inr (Failure (ZodError [Issue [] ''string'']))
   \<and> fst (safeListWorkspaces demo_client
            (Some \<lparr>schema = SchemaUndefined, cursor = Some ''old'', limit = None\<rparr>) demo_run)
     = Inr (Failure (ZodError [Issue [] ''object'']))
   \<and> fst (safeGetWorkspace demo_client ''legacy'' None demo_run)
     = Inr (Failure (ZodError [Issue [] ''object'']))
   \<and> fst (safeListWorkspaces demo_client
            (Some \<lparr>schema = SchemaZod throwing_schema, cursor = None, limit = None\<rparr>) demo_run)
     = Inl (Exception ''transform failed'')
   \<and> fst (safeGetWorkspace demo_client ''acme'' (Some \<lparr>schema = SchemaZod throwing_schema\<rparr>)
            demo_run)
     = Inl (Exception ''transform failed'')
   \<and> (\<exists>res. fst (safeListWorkspaces demo_client None demo_run) = Inr res)
   \<and> (\<exists>res. fst (safeGetWorkspace demo_client ''acme'' (Some \<lparr>schema = SchemaFalse\<rparr>) demo_run)
         = Inr res)"
proof -
  note a = safe_variant_outcomes [where client = demo_client and s = demo_run
      and lp = bad_list_params and x = "JString ''yes''" and teamSlug = "''acme''"
      and gp = bad_get_params and x' = "JString ''yes''"]
  note b = safe_variant_outcomes [where client = demo_client and s = demo_run
      and lp = "Some \<lparr>schema = SchemaUndefined, cursor = Some ''zzz'', limit = None\<rparr>"
      and he = "RequestError 404 ''Not Found''" and teamSlug = "''none''" and gp = None
      and he' = "RequestError 404 ''Not Found''"]
  note c = safe_variant_outcomes [where client = demo_client and s = demo_run
      and lp = "Some \<lparr>schema = SchemaZod demo_schema, cursor = None, limit = None\<rparr>"
      and d = demo_listing and S = demo_schema and issues = "[Issue [] ''string'']"
      and teamSlug = "''acme''" and gp = "Some \<lparr>schema = SchemaZod demo_schema\<rparr>"
      and d' = demo_workspace and S' = demo_schema and issues' = "[Issue [] ''string'']"]
  note d = safe_variant_outcomes [where client = demo_client and s = demo_run
      and lp = "Some \<lparr>schema = SchemaUndefined, cursor = Some ''old'', limit = None\<rparr>"
      and d = "JArray []" and issues = "[Issue [] ''object'']"
      and teamSlug = "''legacy''" and gp = None
      and d' = "JString ''gone''" and issues' = "[Issue [] ''object'']"]
  note e = safe_variant_outcomes [where client = demo_client and s = demo_run
      and lp = "Some \<lparr>schema = SchemaZod throwing_schema, cursor = None, limit = None\<rparr>"
      and te = "Exception ''transform failed''" and teamSlug = "''acme''"
      and gp = "Some \<lparr>schema = SchemaZod throwing_schema\<rparr>"
      and te' = "Exception ''transform failed''"]
  note f = safe_variant_outcomes [where client = demo_client and s = demo_run and lp = None
      and teamSlug = "''acme''" and gp = "Some \<lparr>schema = SchemaFalse\<rparr>"]
  have 1: "fst (safeListWorkspaces demo_client bad_list_params demo_run)
     = Inr (Failure ParameterValidationError)"
    "fst (safeGetWorkspace demo_client ''acme'' bad_get_params demo_run)
     = Inr (Failure ParameterValidationError)"
    using a by (simp_all add: opt_schema_simps)
  have 2: "fst (safeListWorkspaces demo_client
            (Some \<lparr>schema = SchemaUndefined, cursor = Some ''zzz'', limit = None\<rparr>) demo_run)
     = Inr (Failure (RequestError 404 ''Not Found''))"
    "fst (safeGetWorkspace demo_client ''none'' None demo_run)
     = Inr (Failure (RequestError 404 ''Not Found''))"
    using b by (simp_all add: validate_simps url_cursor demo_safeGet_simps)
  have 3: "fst (safeListWorkspaces demo_client
            (Some \<lparr>schema = SchemaZod demo_schema, cursor = None, limit = None\<rparr>) demo_run)
     = Inr (Failure (ZodError [Issue [] ''string'']))"
    "fst (safeGetWorkspace demo_client ''acme'' (Some \<lparr>schema = SchemaZod demo_schema\<rparr>) demo_run)
     = Inr (Failure (ZodError [Issue [] ''string'']))"
    using c by (simp_all add: opt_schema_simps url_plain demo_safeGet_simps wrong_shape)
  have 4: "fst (safeListWorkspaces demo_client
            (Some \<lparr>schema = SchemaUndefined, cursor = Some ''old'', limit = None\<rparr>) demo_run)
     = Inr (Failure (ZodError [Issue [] ''object'']))"
    "fst (safeGetWorkspace demo_client ''legacy'' None demo_run)
     = Inr (Failure (ZodError [Issue [] ''object'']))"
    using d by (simp_all add: opt_schema_simps url_cursor demo_safeGet_simps wrong_shape)
  have 5: "fst (safeListWorkspaces demo_client
            (Some \<lparr>schema = SchemaZod throwing_schema, cursor = None, limit = None\<rparr>) demo_run)
     = Inl (Exception ''transform failed'')"
    "fst (safeGetWorkspace demo_client ''acme'' (Some \<lparr>schema = SchemaZod throwing_schema\<rparr>)
            demo_run)
     = Inl (Exception ''transform failed'')"
    using e by (simp_all add: opt_schema_simps url_plain demo_safeGet_simps throwing_demo)
  have 6: "\<exists>res. fst (safeListWorkspaces demo_client None demo_run) = Inr res"
    "\<exists>res. fst (safeGetWorkspace demo_client ''acme'' (Some \<lparr>schema = SchemaFalse\<rparr>) demo_run)
         = Inr res"
    using f by (simp_all add: opt_schema_simps)
  from 1 2 3 4 5 6 show ?thesis by simp
qed

text \<open>
  C3 as stated fails: with valid parameters whose custom schema has a throwing transform,
  and a client that answers with a response, \<^verbatim>\<open>safeListWorkspaces\<close> throws.
\<close>

theorem safe_variant_outcomes_counterexample:
  "validateActionParameters
     (Some \<lparr>schema = SchemaZod throwing_schema, cursor = None, limit = None\<rparr>) = None
   \<and> fst (safeGet demo_client ''/workspaces'' (world demo_run)) = Success demo_listing
   \<and> fst (safeListWorkspaces demo_client
            (Some \<lparr>schema = SchemaZod throwing_schema, cursor = None, limit = None\<rparr>) demo_run)
       = Inl (Exception ''transform failed'')"
  by (simp add: fst_safeListWorkspaces opt_schema_simps url_plain demo_safeGet_simps
      safe_outcome_def safeParse_def throwing_schema_def validateActionParameters_def)

text \<open>
  C4 (validation precedes the request). When parameter validation fails, the throwing
  variants throw the parameter error and the safe variants return it, and both leave the run
  as it was: no call to \<^verbatim>\<open>client.get\<close> or \<^verbatim>\<open>client.safeGet\<close> is recorded and the
  world behind the client is untouched.
\<close>

theorem validation_precedes_request:
  "(validateActionParameters lp = Some e \<longrightarrow> listWorkspaces client lp s = (Inl e, s))
   \<and> (safeValidateActionParameters lp = Some f \<longrightarrow>
        safeListWorkspaces client lp s = (Inr f, s))
   \<and> (validateActionParameters gp = Some e' \<longrightarrow>
        getWorkspace client teamSlug gp s = (Inl e', s))
   \<and> (safeValidateActionParameters gp = Some f' \<longrightarrow>
        safeGetWorkspace client teamSlug gp s = (Inr f', s))"
  by (simp add: listWorkspaces_eq safeListWorkspaces_eq getWorkspace_def safeGetWorkspace_def)

theorem validation_precedes_request_witness:
  "listWorkspaces demo_client bad_list_params later_run = (Inl ParameterValidationError, later_run)
   \<and> safeListWorkspaces demo_client bad_list_params later_run
       = (Inr (Failure ParameterValidationError), later_run)
   \<and> getWorkspace demo_client ''acme'' bad_get_params later_run
       = (Inl ParameterValidationError, later_run)
   \<and> safeGetWorkspace demo_client ''acme'' bad_get_params later_run
       = (Inr (Failure ParameterValidationError), later_run)"
  using validation_precedes_request [of bad_list_params ParameterValidationError demo_client
      later_run "Failure ParameterValidationError" bad_get_params ParameterValidationError
      "''acme''" "Failure ParameterValidationError"]
  by (simp add: validate_simps)

text \<open>
  C5, amended (the request URLs). When parameter validation succeeds, \<^verbatim>\<open>listWorkspaces\<close>
  applies \<^verbatim>\<open>client.get\<close> once, to \<^verbatim>\<open>/workspaces\<close> when no query pair is sent and to
  \<^verbatim>\<open>/workspaces?\<close> followed by the serialised pairs otherwise; the pair \<^verbatim>\<open>cursor\<close> is
  sent exactly when the caller supplies a cursor other than the empty string, and the pair
  \<^verbatim>\<open>limit\<close>, with what \<^verbatim>\<open>toString\<close> prints for the limit, exactly when the caller
  supplies a limit other than \<open>0\<close> and \<open>NaN\<close>. When parameter validation succeeds,
  \<^verbatim>\<open>getWorkspace\<close> applies \<^verbatim>\<open>client.get\<close> once, to \<^verbatim>\<open>/workspaces/\<close> followed by the
  team slug.
\<close>

theorem request_urls:
  "(validateActionParameters lp = None \<and> js_limit lp \<longrightarrow>
      snd (listWorkspaces client lp s)
        = \<lparr>trace = trace s @ [Get (listWorkspaces_url lp)],
           world = snd (get client (listWorkspaces_url lp) (world s))\<rparr>)
   \<and> listWorkspaces_url lp
        = (if supplied_query lp = [] then ''/workspaces''
           else ''/workspaces?'' @ toString (supplied_query lp))
   \<and> ((''cursor'', c) \<in> set (supplied_query lp) \<longleftrightarrow> opt_cursor lp = Some c \<and> c \<noteq> [])
   \<and> ((''limit'', v) \<in> set (supplied_query lp)
        \<longleftrightarrow> (\<exists>l. opt_limit lp = Some l \<and> l \<noteq> Integer 0 \<and> l \<noteq> NaN
                  \<and> v = number_toString l))
   \<and> (validateActionParameters gp = None \<longrightarrow>
        snd (getWorkspace client teamSlug gp s)
          = \<lparr>trace = trace s @ [Get (''/workspaces/'' @ teamSlug)],
             world = snd (get client (''/workspaces/'' @ teamSlug) (world s))\<rparr>)"
  using cursor_in_query [of c lp] limit_in_query [of v lp]
  by (simp add: snd_listWorkspaces snd_getWorkspace listWorkspaces_url_def)

theorem request_urls_witness:
  "snd (listWorkspaces demo_client
      (Some \<lparr>schema = SchemaFalse, cursor = Some ''a b'', limit = Some (Integer 20)\<rparr>) later_run)
     = \<lparr>trace = [Get ''/workspaces'', SafeGet ''/workspaces/acme'',
                 Get ''/workspaces?cursor=a+b&limit=20''],
        world = 6\<rparr>
   \<and> snd (listWorkspaces demo_client
      (Some \<lparr>schema = SchemaFalse, cursor = None, limit = Some (Double ''0.5'')\<rparr>) later_run)
     = \<lparr>trace = [Get ''/workspaces'', SafeGet ''/workspaces/acme'', Get ''/workspaces?limit=0.5''],
        world = 6\<rparr>
   \<and> snd (listWorkspaces demo_client
      (Some \<lparr>schema = SchemaFalse, cursor = None, limit = Some NaN\<rparr>) later_run)
     = \<lparr>trace = [Get ''/workspaces'', SafeGet ''/workspaces/acme'', Get ''/workspaces''],
        world = 6\<rparr>
   \<and> snd (getWorkspace demo_client ''acme'' None later_run)
     = \<lparr>trace = [Get ''/workspaces'', SafeGet ''/workspaces/acme'', Get ''/workspaces/acme''],
        world = 6\<rparr>"
  using
    request_urls [where client = demo_client and s = later_run and gp = None
      and teamSlug = "''acme''"
      and lp = "Some \<lparr>schema = SchemaFalse, cursor = Some ''a b'', limit = Some (Integer 20)\<rparr>"]
    request_urls [where client = demo_client and s = later_run and gp = None
      and teamSlug = "''acme''"
      and lp = "Some \<lparr>schema = SchemaFalse, cursor = None, limit = Some (Double ''0.5'')\<rparr>"]
    request_urls [where client = demo_client and s = later_run and gp = None
      and teamSlug = "''acme''"
      and lp = "Some \<lparr>schema = SchemaFalse, cursor = None, limit = Some NaN\<rparr>"]
  by (simp add: validate_simps url_page later_run_def demo_world js_limit_def js_number_def
      opt_limit_def integer_rendering_def digit_string_def)

text \<open>
  C5 as stated fails: a caller who supplies \<^verbatim>\<open>limit: 0\<close> gets a request to
  \<^verbatim>\<open>/workspaces\<close> with no \<^verbatim>\<open>limit\<close> in it.
\<close>

theorem request_urls_counterexample:
  "opt_limit (Some \<lparr>schema = SchemaUndefined, cursor = None, limit = Some (Integer 0)\<rparr>)
     = Some (Integer 0)
   \<and> trace (snd (listWorkspaces demo_client
        (Some \<lparr>schema = SchemaUndefined, cursor = None, limit = Some (Integer 0)\<rparr>) demo_run))
     = [Get ''/workspaces'']"
  using trace_listWorkspaces [of "Some \<lparr>schema = SchemaUndefined, cursor = None, limit = Some (Integer 0)\<rparr>"
      demo_client demo_run]
  by (simp add: validate_simps opt_limit_def url_page demo_run_def)

text \<open>
  C6 (no retry). When parameter validation succeeds, each of the four actions applies the
  client exactly once, \<^verbatim>\<open>get\<close> for the throwing variants and \<^verbatim>\<open>safeGet\<close> for the safe
  ones, whatever the client answers and whatever schema validation then says: the run the
  action leaves has one more call in its trace, to some URL, and its world is the one that
  this single application of the client to that URL leaves.
\<close>

theorem exactly_one_request:
  "(validateActionParameters lp = None \<longrightarrow>
      (\<exists>url. snd (listWorkspaces client lp s)
         = \<lparr>trace = trace s @ [Get url], world = snd (get client url (world s))\<rparr>))
   \<and> (safeValidateActionParameters lp = None \<longrightarrow>
      (\<exists>url. snd (safeListWorkspaces client lp s)
         = \<lparr>trace = trace s @ [SafeGet url], world = snd (safeGet client url (world s))\<rparr>))
   \<and> (validateActionParameters gp = None \<longrightarrow>
      (\<exists>url. snd (getWorkspace client teamSlug gp s)
         = \<lparr>trace = trace s @ [Get url], world = snd (get client url (world s))\<rparr>))
   \<and> (safeValidateActionParameters gp = None \<longrightarrow>
      (\<exists>url. snd (safeGetWorkspace client teamSlug gp s)
         = \<lparr>trace = trace s @ [SafeGet url], world = snd (safeGet client url (world s))\<rparr>))"
  by (intro conjI impI exI; (erule snd_listWorkspaces snd_safeListWorkspaces snd_getWorkspace
      snd_safeGetWorkspace))

theorem exactly_one_request_witness:
  "(\<exists>url. snd (listWorkspaces demo_client None later_run)
      = \<lparr>trace = trace later_run @ [Get url],
         world = snd (get demo_client url (world later_run))\<rparr>)
   \<and> (\<exists>url. snd (safeListWorkspaces demo_client None later_run)
      = \<lparr>trace = trace later_run @ [SafeGet url],
         world = snd (safeGet demo_client url (world later_run))\<rparr>)
   \<and> (\<exists>url. snd (getWorkspace demo_client ''none'' None later_run)
      = \<lparr>trace = trace later_run @ [Get url],
         world = snd (get demo_client url (world later_run))\<rparr>)
   \<and> (\<exists>url. snd (safeGetWorkspace demo_client ''none'' None later_run)
      = \<lparr>trace = trace later_run @ [SafeGet url],
         world = snd (safeGet demo_client url (world later_run))\<rparr>)
   \<and> world (snd (listWorkspaces demo_client None later_run)) = 6
   \<and> world (snd (safeGetWorkspace demo_client ''none'' None later_run)) = 6
   \<and> length (trace (snd (getWorkspace demo_client ''none'' None later_run))) = 3"
proof -
  note a = exactly_one_request [where client = demo_client and s = later_run and lp = None
      and gp = None and teamSlug = "''none''"]
  have b: "\<exists>url. snd (listWorkspaces demo_client None later_run)
      = \<lparr>trace = trace later_run @ [Get url],
         world = snd (get demo_client url (world later_run))\<rparr>"
    "\<exists>url. snd (safeListWorkspaces demo_client None later_run)
      = \<lparr>trace = trace later_run @ [SafeGet url],
         world = snd (safeGet demo_client url (world later_run))\<rparr>"
    "\<exists>url. snd (getWorkspace demo_client ''none'' None later_run)
      = \<lparr>trace = trace later_run @ [Get url],
         world = snd (get demo_client url (world later_run))\<rparr>"
    "\<exists>url. snd (safeGetWorkspace demo_client ''none'' None later_run)
      = \<lparr>trace = trace later_run @ [SafeGet url],
         world = snd (safeGet demo_client url (world later_run))\<rparr>"
    using a by (simp_all add: validate_simps)
  from b have c: "world (snd (listWorkspaces demo_client None later_run)) = 6"
    "world (snd (safeGetWorkspace demo_client ''none'' None later_run)) = 6"
    "length (trace (snd (getWorkspace demo_client ''none'' None later_run))) = 3"
    by (auto simp: demo_world later_run_def)
  from b c show ?thesis by simp
qed

text \<open>
  C7 (determinism, no hidden state). The outcome of an action is a function of its
  parameters, the team slug and the client's answer alone: two invocations with the same
  arguments whose clients give the same answers end the same way, whatever the two clients
  are otherwise, whatever calls were made before and whatever state the world is in.
\<close>

theorem outcome_depends_on_response_only:
  assumes "\<And>url. fst (get c1 url (world s1)) = fst (get c2 url (world s2))"
    and "\<And>url. fst (safeGet c1 url (world s1)) = fst (safeGet c2 url (world s2))"
  shows "fst (listWorkspaces c1 lp s1) = fst (listWorkspaces c2 lp s2)
       \<and> fst (safeListWorkspaces c1 lp s1) = fst (safeListWorkspaces c2 lp s2)
       \<and> fst (getWorkspace c1 teamSlug gp s1) = fst (getWorkspace c2 teamSlug gp s2)
       \<and> fst (safeGetWorkspace c1 teamSlug gp s1) = fst (safeGetWorkspace c2 teamSlug gp s2)"
  by (simp add: fst_listWorkspaces fst_safeListWorkspaces fst_getWorkspace fst_safeGetWorkspace
      assms)

theorem outcome_depends_on_response_only_witness:
  "fst (listWorkspaces demo_client None demo_run) = fst (listWorkspaces demo_client None later_run)
   \<and> fst (safeListWorkspaces demo_client None demo_run)
       = fst (safeListWorkspaces demo_client None later_run)
   \<and> fst (getWorkspace demo_client ''acme'' None demo_run)
       = fst (getWorkspace demo_client ''acme'' None later_run)
   \<and> fst (safeGetWorkspace demo_client ''acme'' None demo_run)
       = fst (safeGetWorkspace demo_client ''acme'' None later_run)"
proof -
  have g: "fst (get demo_client url (world demo_run)) = fst (get demo_client url (world later_run))"
    for url
    by (simp add: demo_client_def demo_get_def)
  have sg: "fst (safeGet demo_client url (world demo_run))
              = fst (safeGet demo_client url (world later_run))" for url
    by (simp add: demo_safeGet g)
  from outcome_depends_on_response_only [of demo_client demo_run demo_client later_run None
      "''acme''" None, OF g sg]
  show ?thesis .
qed

text \<open>
  C8 (falsy pagination values are dropped). An empty cursor behaves as no cursor, and a
  limit of \<open>0\<close> as no limit, in \<^verbatim>\<open>listWorkspaces\<close> and in \<^verbatim>\<open>safeListWorkspaces\<close>: the
  whole outcome and run are those of the invocation without the option. With both falsy and
  valid parameters the one request goes to \<^verbatim>\<open>/workspaces\<close>, with no query string.
\<close>

theorem falsy_pagination_dropped:
  "listWorkspaces client (Some (p\<lparr>cursor := Some []\<rparr>)) s
     = listWorkspaces client (Some (p\<lparr>cursor := None\<rparr>)) s
   \<and> listWorkspaces client (Some (p\<lparr>limit := Some (Integer 0)\<rparr>)) s
     = listWorkspaces client (Some (p\<lparr>limit := None\<rparr>)) s
   \<and> safeListWorkspaces client (Some (p\<lparr>cursor := Some []\<rparr>)) s
     = safeListWorkspaces client (Some (p\<lparr>cursor := None\<rparr>)) s
   \<and> safeListWorkspaces client (Some (p\<lparr>limit := Some (Integer 0)\<rparr>)) s
     = safeListWorkspaces client (Some (p\<lparr>limit := None\<rparr>)) s
   \<and> (validateActionParameters (Some p) = None \<longrightarrow>
        trace (snd (listWorkspaces client (Some (p\<lparr>cursor := Some [], limit := Some (Integer 0)\<rparr>)) s))
          = trace s @ [Get ''/workspaces'']
        \<and> trace (snd (safeListWorkspaces client
                         (Some (p\<lparr>cursor := Some [], limit := Some (Integer 0)\<rparr>)) s))
          = trace s @ [SafeGet ''/workspaces''])"
proof -
  have a: "listWorkspaces client (Some (p\<lparr>cursor := Some []\<rparr>)) s
             = listWorkspaces client (Some (p\<lparr>cursor := None\<rparr>)) s"
    by (simp only: listWorkspaces_eq url_falsy schema_of_update validate_of_update)
  have b: "listWorkspaces client (Some (p\<lparr>limit := Some (Integer 0)\<rparr>)) s
             = listWorkspaces client (Some (p\<lparr>limit := None\<rparr>)) s"
    by (simp only: listWorkspaces_eq url_falsy schema_of_update validate_of_update)
  have c: "safeListWorkspaces client (Some (p\<lparr>cursor := Some []\<rparr>)) s
             = safeListWorkspaces client (Some (p\<lparr>cursor := None\<rparr>)) s"
    by (simp only: safeListWorkspaces_eq url_falsy schema_of_update validate_of_update)
  have d: "safeListWorkspaces client (Some (p\<lparr>limit := Some (Integer 0)\<rparr>)) s
             = safeListWorkspaces client (Some (p\<lparr>limit := None\<rparr>)) s"
    by (simp only: safeListWorkspaces_eq url_falsy schema_of_update validate_of_update)
  have e: "trace (snd (listWorkspaces client (Some (p\<lparr>cursor := Some [], limit := Some (Integer 0)\<rparr>)) s))
          = trace s @ [Get ''/workspaces'']"
    if "validateActionParameters (Some p) = None"
    using trace_listWorkspaces [of "Some (p\<lparr>cursor := Some [], limit := Some (Integer 0)\<rparr>)" client s] that
    unfolding url_falsy(1) validate_both by simp
  have f: "trace (snd (safeListWorkspaces client (Some (p\<lparr>cursor := Some [], limit := Some (Integer 0)\<rparr>)) s))
          = trace s @ [SafeGet ''/workspaces'']"
    if "validateActionParameters (Some p) = None"
    using trace_safeListWorkspaces [of "Some (p\<lparr>cursor := Some [], limit := Some (Integer 0)\<rparr>)" client s] that
    unfolding url_falsy(1) safeValidate_None_iff validate_both by simp
  from a b c d e f show ?thesis by blast
qed

theorem falsy_pagination_dropped_witness:
  "trace (snd (listWorkspaces demo_client
      (Some \<lparr>schema = SchemaFalse, cursor = Some [], limit = Some (Integer 0)\<rparr>) demo_run))
     = [Get ''/workspaces'']
   \<and> trace (snd (safeListWorkspaces demo_client
      (Some \<lparr>schema = SchemaFalse, cursor = Some [], limit = Some (Integer 0)\<rparr>) demo_run))
     = [SafeGet ''/workspaces'']"
  using falsy_pagination_dropped [of demo_client
      "\<lparr>schema = SchemaFalse, cursor = None, limit = None\<rparr>" demo_run]
  by (simp add: validate_simps demo_run_def)

text \<open>
  C9, amended (what the default schemas keep). When the \<^verbatim>\<open>schema\<close> option is omitted and
  the default schema accepts the client's response, \<^verbatim>\<open>getWorkspace\<close> returns the response
  without its key \<^verbatim>\<open>__proto__\<close>, and \<^verbatim>\<open>listWorkspaces\<close> returns the response without the
  key \<^verbatim>\<open>__proto__\<close> of the listing, of its \<^verbatim>\<open>pagination\<close> object and of each workspace
  in \<^verbatim>\<open>data\<close>. Every other key of these objects, required or not, is in the value
  returned, with the value it has in the response; a response with no such \<^verbatim>\<open>__proto__\<close>
  key is returned as it is.
\<close>

theorem default_schema_result:
  "(opt_schema lp = SchemaUndefined
      \<and> fst (get client (listWorkspaces_url lp) (world s)) = Inr r
      \<and> accepts ListWorkspacesSchema r \<longrightarrow>
      fst (listWorkspaces client lp s) = Inr (listing_without_proto r))
   \<and> (opt_schema gp = SchemaUndefined
      \<and> fst (get client (''/workspaces/'' @ teamSlug) (world s)) = Inr r'
      \<and> accepts WorkspaceResponseSchema r' \<longrightarrow>
      fst (getWorkspace client teamSlug gp s) = Inr (without_proto r'))
   \<and> json_get (without_proto j) k = (if k = ''__proto__'' then None else json_get j k)
   \<and> json_get (listing_without_proto j) k
       = (if k = ''__proto__'' then None else map_option (listing_part k) (json_get j k))
   \<and> listing_part k x
       = (if k = ''data'' then (case x of JArray ws \<Rightarrow> JArray (map without_proto ws) | _ \<Rightarrow> x)
          else if k = ''pagination'' then without_proto x
          else x)
   \<and> (json_get j ''__proto__'' = None \<longrightarrow> without_proto j = j)"
proof -
  have u: "without_proto j = j" if "json_get j ''__proto__'' = None"
    using that by (cases j) (auto simp: json_get_def without_proto_def intro!: fmap_ext)
  show ?thesis
    by (simp add: fst_listWorkspaces fst_getWorkspace throwing_outcome_def accepted_listing
        accepted_workspace json_get_without_proto json_get_listing listing_part_def u)
qed

theorem default_schema_result_witness:
  "fst (listWorkspaces demo_client None demo_run) = Inr demo_listing
   \<and> json_get demo_listing ''request_id'' = Some (JString ''req_7'')
   \<and> fst (getWorkspace demo_client ''acme'' None demo_run) = Inr demo_workspace
   \<and> json_get demo_workspace ''avatar'' = Some JNull
   \<and> fst (getWorkspace demo_client ''proto'' None demo_run) = Inr (without_proto proto_workspace)
   \<and> json_get (without_proto proto_workspace) ''name'' = Some (JString ''Proto'')
   \<and> json_get (without_proto proto_workspace) ''__proto__'' = None"
proof -
  note a = default_schema_result [where client = demo_client and s = demo_run and lp = None
      and r = demo_listing and gp = None and teamSlug = "''acme''" and r' = demo_workspace
      and j = demo_workspace]
  note b = default_schema_result [where client = demo_client and s = demo_run and lp = None
      and r = demo_listing and gp = None and teamSlug = "''proto''" and r' = proto_workspace
      and j = proto_workspace]
  have 1: "fst (listWorkspaces demo_client None demo_run) = Inr demo_listing"
    "fst (getWorkspace demo_client ''acme'' None demo_run) = Inr demo_workspace"
    using a by (simp_all add: opt_schema_simps url_None demo_get_simps demo_accepted
        demo_listing_plain demo_workspace_plain)
  have 2: "fst (getWorkspace demo_client ''proto'' None demo_run) = Inr (without_proto proto_workspace)"
    using b by (simp add: opt_schema_simps demo_get_simps demo_accepted)
  have 3: "json_get demo_listing ''request_id'' = Some (JString ''req_7'')"
    "json_get demo_workspace ''avatar'' = Some JNull"
    by (simp_all add: json_get_def demo_listing_def demo_workspace_def fmlookup_of_list)
  from 1 2 3 proto_dropped show ?thesis by simp
qed

text \<open>
  C9 as stated fails: a workspace with a key \<^verbatim>\<open>__proto__\<close> beyond the required ones is
  accepted by the default schema, and the value \<^verbatim>\<open>getWorkspace\<close> returns lacks that key.
\<close>

theorem default_schema_result_counterexample:
  "fst (get demo_client ''/workspaces/proto'' (world demo_run)) = Inr proto_workspace
   \<and> accepts WorkspaceResponseSchema proto_workspace
   \<and> json_get proto_workspace ''__proto__'' = Some (JObject (fmap_of_list [(''admin'', JBool True)]))
   \<and> fst (getWorkspace demo_client ''proto'' None demo_run) = Inr (without_proto proto_workspace)
   \<and> json_get (without_proto proto_workspace) ''__proto__'' = None"
  by (simp add: fst_getWorkspace opt_schema_simps demo_get_simps throwing_outcome_def
      accepted_workspace demo_accepted proto_dropped)


end
